theory Spec2Isabelle
  imports Complex_Main
begin

section \<open>Effort limiter: saturation and write-out of joint efforts\<close>

text \<open>
  The effort limiter only compares, negates and copies doubles, and its behaviour on
  NaN and on the infinities is part of what is verified.  A double is therefore modelled
  as a real number, one of the two infinities, or NaN; the comparisons are the IEEE ones
  (every comparison with NaN is false).  No arithmetic is done on these values, so rounding
  does not occur; the two zeros are one value, as they are for the IEEE comparison.
\<close>

datatype dbl = Fin real | PInf | NInf | NaN

fun dbl_ge :: "dbl \<Rightarrow> dbl \<Rightarrow> bool" where
  "dbl_ge NaN b = False"
| "dbl_ge a NaN = False"
| "dbl_ge PInf b = True"
| "dbl_ge a NInf = True"
| "dbl_ge NInf b = False"
| "dbl_ge a PInf = False"
| "dbl_ge (Fin a) (Fin b) = (b \<le> a)"

definition dbl_le :: "dbl \<Rightarrow> dbl \<Rightarrow> bool" where
  "dbl_le a b = dbl_ge b a"

fun dbl_gt :: "dbl \<Rightarrow> dbl \<Rightarrow> bool" where
  "dbl_gt NaN b = False"
| "dbl_gt a NaN = False"
| "dbl_gt NInf b = False"
| "dbl_gt a PInf = False"
| "dbl_gt PInf b = True"
| "dbl_gt a NInf = True"
| "dbl_gt (Fin a) (Fin b) = (b < a)"

definition dbl_lt :: "dbl \<Rightarrow> dbl \<Rightarrow> bool" where
  "dbl_lt a b = dbl_gt b a"

fun dbl_neg :: "dbl \<Rightarrow> dbl" where
  "dbl_neg (Fin a) = Fin (- a)"
| "dbl_neg PInf = NInf"
| "dbl_neg NInf = PInf"
| "dbl_neg NaN = NaN"

fun is_finite :: "dbl \<Rightarrow> bool" where
  "is_finite (Fin a) = True"
| "is_finite a = False"

subsection \<open>Joint limits read at configuration\<close>

datatype joint_type = UNKNOWN | REVOLUTE | CONTINUOUS | PRISMATIC | FLOATING | PLANAR | FIXED

record urdf_joint =
  joint_type :: joint_type
  limits_upper :: dbl
  limits_lower :: dbl
  limits_effort :: dbl

text \<open>
  The limit-parsing loop of \<open>EffortControllerBase::on_configure\<close>.  The robot model is a
  partial map from joint names to joints (\<open>getJoint\<close> returns null for an unknown name);
  the result is the error message of the failing branch, or the three limit arrays
  (upper position, lower position, effort) in joint order.
\<close>

fun parse_joint_limits ::
  "(string \<rightharpoonup> urdf_joint) \<Rightarrow> string list \<Rightarrow> string + (dbl list \<times> dbl list \<times> dbl list)" where
  "parse_joint_limits robot_model [] = Inr ([], [], [])"
| "parse_joint_limits robot_model (name # names) =
     (case robot_model name of
        None \<Rightarrow> Inl (''Joint '' @ name @ '' does not appear in robot_description'')
      | Some j \<Rightarrow>
          (case parse_joint_limits robot_model names of
             Inl e \<Rightarrow> Inl e
           | Inr (upper, lower, effort) \<Rightarrow>
               if joint_type j = CONTINUOUS
               then Inr (NaN # upper, NaN # lower, NaN # effort)
               else Inr (limits_upper j # upper, limits_lower j # lower, limits_effort j # effort)))"

subsection \<open>The write-out loop\<close>

definition HW_IF_EFFORT :: string where
  "HW_IF_EFFORT = ''effort''"

record effort_base =
  m_cmd_interface_types :: "string list"
  m_joint_names :: "string list"
  m_efforts :: "dbl list"
  m_joint_effort_limits :: "dbl list"
  m_joint_cmd_eff_handles :: "dbl list"

text \<open>
  One iteration of the inner loop of \<open>writeJointEffortCmds\<close> for joint \<open>i\<close>.  The three
  arrays are indexed without a bounds check in the source; an index outside one of them
  is undefined behaviour there and \<open>None\<close> here.
\<close>

definition write_joint :: "nat \<Rightarrow> effort_base \<Rightarrow> effort_base option" where
  "write_joint i s =
     (if i < length (m_efforts s) \<and> i < length (m_joint_effort_limits s)
         \<and> i < length (m_joint_cmd_eff_handles s)
      then
        let s1 =
          (if dbl_ge (m_efforts s ! i) (m_joint_effort_limits s ! i)
           then s\<lparr>m_efforts := (m_efforts s)[i := m_joint_effort_limits s ! i]\<rparr>
           else if dbl_le (m_efforts s ! i) (dbl_neg (m_joint_effort_limits s ! i))
           then s\<lparr>m_efforts := (m_efforts s)[i := dbl_neg (m_joint_effort_limits s ! i)]\<rparr>
           else s)
        in Some (s1\<lparr>m_joint_cmd_eff_handles := (m_joint_cmd_eff_handles s1)[i := m_efforts s1 ! i]\<rparr>)
      else None)"

fun joint_loop :: "nat list \<Rightarrow> effort_base \<Rightarrow> effort_base option" where
  "joint_loop [] s = Some s"
| "joint_loop (i # js) s =
     (case write_joint i s of None \<Rightarrow> None | Some s' \<Rightarrow> joint_loop js s')"

fun type_loop :: "string list \<Rightarrow> effort_base \<Rightarrow> effort_base option" where
  "type_loop [] s = Some s"
| "type_loop (t # ts) s =
     (if t = HW_IF_EFFORT
      then (case joint_loop [0..<length (m_joint_names s)] s of
              None \<Rightarrow> None
            | Some s' \<Rightarrow> type_loop ts s')
      else type_loop ts s)"

definition writeJointEffortCmds :: "effort_base \<Rightarrow> effort_base option" where
  "writeJointEffortCmds s = type_loop (m_cmd_interface_types s) s"

text \<open>
  Modelled from the spec: the one-argument overload \<open>computeJointEffortCmds(tau)\<close> that
  \<open>update\<close> calls is not among the sources.  The spec has the core propagate the final
  torque unmodified except for the final saturation, so the overload stores the torque
  as the effort vector that \<open>writeJointEffortCmds\<close> then saturates and writes.
\<close>

definition computeJointEffortCmds :: "dbl list \<Rightarrow> effort_base \<Rightarrow> effort_base" where
  "computeJointEffortCmds tau s = s\<lparr>m_efforts := tau\<rparr>"

text \<open>
  The last two steps of \<open>update\<close>, for the torque \<open>tau_tot\<close> that \<open>computeTorque\<close>
  returned in this tick.
\<close>

definition update_write :: "dbl list \<Rightarrow> effort_base \<Rightarrow> effort_base option" where
  "update_write tau_tot s = writeJointEffortCmds (computeJointEffortCmds tau_tot s)"

text \<open>The value one pass of the saturation leaves for an effort \<open>e\<close> under limit \<open>l\<close>.\<close>

definition saturated :: "dbl \<Rightarrow> dbl \<Rightarrow> dbl" where
  "saturated l e =
     (if dbl_ge e l then l else if dbl_le e (dbl_neg l) then dbl_neg l else e)"

text \<open>
  The arrays of a configured and activated controller have one entry per joint:
  \<open>on_configure\<close> sizes efforts and limits by the joint names, \<open>on_activate\<close> refuses
  to start unless there is one command handle per joint.
\<close>

definition sized :: "effort_base \<Rightarrow> bool" where
  "sized s =
     (length (m_efforts s) = length (m_joint_names s)
      \<and> length (m_joint_effort_limits s) = length (m_joint_names s)
      \<and> length (m_joint_cmd_eff_handles s) = length (m_joint_names s))"

section \<open>Frames, vectors and matrices\<close>

text \<open>
  Positions, orientations, wrenches and torques of the control law are modelled over the
  real numbers.  A vector of the geometry library has three coordinates, a rotation is its
  3x3 matrix in row-major order, and a frame is a rotation with a position.  The
  operations are named after the library operators the controllers call.
\<close>

datatype Vector = Vector (vx: real) (vy: real) (vz: real)

datatype Rotation = Rotation real real real real real real real real real

datatype Frame = Frame (frame_M: Rotation) (frame_p: Vector)

fun vec_minus :: "Vector \<Rightarrow> Vector \<Rightarrow> Vector" where
  "vec_minus (Vector a b c) (Vector d e f) = Vector (a - d) (b - e) (c - f)"

fun vec_plus :: "Vector \<Rightarrow> Vector \<Rightarrow> Vector" where
  "vec_plus (Vector a b c) (Vector d e f) = Vector (a + d) (b + e) (c + f)"

fun vec_times :: "Vector \<Rightarrow> real \<Rightarrow> Vector" where
  "vec_times (Vector a b c) k = Vector (a * k) (b * k) (c * k)"

fun vec_div :: "Vector \<Rightarrow> real \<Rightarrow> Vector" where
  "vec_div (Vector a b c) k = Vector (a / k) (b / k) (c / k)"

text \<open>The product of two vectors is their cross product.\<close>

fun cross :: "Vector \<Rightarrow> Vector \<Rightarrow> Vector" where
  "cross (Vector a b c) (Vector d e f) = Vector (b * f - c * e) (c * d - a * f) (a * e - b * d)"

fun Norm :: "Vector \<Rightarrow> real" where
  "Norm (Vector a b c) = sqrt (a * a + b * b + c * c)"

text \<open>
  \<open>Normalize\<close> turns a vector into a unit vector and returns its former norm; a vector
  shorter than the tolerance \<open>eps\<close> becomes \<open>(1, 0, 0)\<close> and the returned norm is 0.
  The tolerance is the library's default argument and a parameter here.
\<close>

definition Normalize :: "real \<Rightarrow> Vector \<Rightarrow> real \<times> Vector" where
  "Normalize eps v =
     (if Norm v < eps then (0, Vector 1 0 0) else (Norm v, vec_div v (Norm v)))"

fun rot_mul :: "Rotation \<Rightarrow> Rotation \<Rightarrow> Rotation" where
  "rot_mul (Rotation a0 a1 a2 a3 a4 a5 a6 a7 a8) (Rotation b0 b1 b2 b3 b4 b5 b6 b7 b8) =
     Rotation (a0 * b0 + a1 * b3 + a2 * b6) (a0 * b1 + a1 * b4 + a2 * b7) (a0 * b2 + a1 * b5 + a2 * b8)
              (a3 * b0 + a4 * b3 + a5 * b6) (a3 * b1 + a4 * b4 + a5 * b7) (a3 * b2 + a4 * b5 + a5 * b8)
              (a6 * b0 + a7 * b3 + a8 * b6) (a6 * b1 + a7 * b4 + a8 * b7) (a6 * b2 + a7 * b5 + a8 * b8)"

text \<open>The inverse of a rotation is its transpose.\<close>

fun Inverse :: "Rotation \<Rightarrow> Rotation" where
  "Inverse (Rotation a0 a1 a2 a3 a4 a5 a6 a7 a8) = Rotation a0 a3 a6 a1 a4 a7 a2 a5 a8"

fun UnitX :: "Rotation \<Rightarrow> Vector" where
  "UnitX (Rotation a0 a1 a2 a3 a4 a5 a6 a7 a8) = Vector a0 a3 a6"

fun UnitY :: "Rotation \<Rightarrow> Vector" where
  "UnitY (Rotation a0 a1 a2 a3 a4 a5 a6 a7 a8) = Vector a1 a4 a7"

fun UnitZ :: "Rotation \<Rightarrow> Vector" where
  "UnitZ (Rotation a0 a1 a2 a3 a4 a5 a6 a7 a8) = Vector a2 a5 a8"

fun rot_apply :: "Rotation \<Rightarrow> Vector \<Rightarrow> Vector" where
  "rot_apply (Rotation a0 a1 a2 a3 a4 a5 a6 a7 a8) (Vector d e f) =
     Vector (a0 * d + a1 * e + a2 * f) (a3 * d + a4 * e + a5 * f) (a6 * d + a7 * e + a8 * f)"

definition Identity :: Rotation where
  "Identity = Rotation 1 0 0 0 1 0 0 0 1"

text \<open>
  Vectors and matrices of the linear-algebra library are lists of reals and lists of rows.
  Its operators require matching dimensions; on the matching dimensions of the controller
  the list operations below are the usual sum, product and transpose.
\<close>

type_synonym vec = "real list"
type_synonym mat = "real list list"

definition vec_add :: "vec \<Rightarrow> vec \<Rightarrow> vec" where
  "vec_add a b = map2 (+) a b"

definition vec_sub :: "vec \<Rightarrow> vec \<Rightarrow> vec" where
  "vec_sub a b = map2 (-) a b"

definition dot :: "vec \<Rightarrow> vec \<Rightarrow> real" where
  "dot a b = sum_list (map2 (*) a b)"

definition mat_vec :: "mat \<Rightarrow> vec \<Rightarrow> vec" where
  "mat_vec A v = map (\<lambda>row. dot row v) A"

definition mat_mul :: "mat \<Rightarrow> mat \<Rightarrow> mat" where
  "mat_mul A B = map (\<lambda>row. map (\<lambda>col. dot row col) (transpose B)) A"

definition identity :: "nat \<Rightarrow> mat" where
  "identity n = map (\<lambda>i. map (\<lambda>j. if i = j then 1 else 0) [0..<n]) [0..<n]"

text \<open>
  The inverse of a square matrix, by Gauss-Jordan elimination on the matrix extended with
  the identity.  \<open>None\<close> is the singular case, where no inverse exists and the library
  call delivers no meaningful value.
\<close>

fun first_pivot :: "nat \<Rightarrow> mat \<Rightarrow> (vec \<times> mat) option" where
  "first_pivot c [] = None"
| "first_pivot c (r # rs) =
     (if r ! c \<noteq> 0 then Some (r, rs)
      else (case first_pivot c rs of None \<Rightarrow> None | Some (q, qs) \<Rightarrow> Some (q, r # qs)))"

definition eliminate :: "nat \<Rightarrow> vec \<Rightarrow> vec \<Rightarrow> vec" where
  "eliminate c piv r = map2 (\<lambda>a b. a - (r ! c) * b) r piv"

fun gauss_jordan :: "nat \<Rightarrow> nat \<Rightarrow> mat \<Rightarrow> mat \<Rightarrow> mat option" where
  "gauss_jordan 0 c finished todo = Some finished"
| "gauss_jordan (Suc k) c finished todo =
     (case first_pivot c todo of
        None \<Rightarrow> None
      | Some (r, rest) \<Rightarrow>
          gauss_jordan k (Suc c)
            (map (eliminate c (map (\<lambda>a. a / (r ! c)) r)) finished @ [map (\<lambda>a. a / (r ! c)) r])
            (map (eliminate c (map (\<lambda>a. a / (r ! c)) r)) rest))"

definition mat_inverse :: "mat \<Rightarrow> mat option" where
  "mat_inverse A =
     map_option (map (drop (length A)))
       (gauss_jordan (length A) 0 [] (map2 (@) A (identity (length A))))"

section \<open>Motion error\<close>

text \<open>\<open>std::clamp\<close>.\<close>

definition clamp :: "real \<Rightarrow> real \<Rightarrow> real \<Rightarrow> real" where
  "clamp v lo hi = (if v < lo then lo else if hi < v then hi else v)"

text \<open>
  The state of a controller, as far as the verified operations read or write it.  The
  three controllers of the repository share these members; the plain impedance
  controllers do not have the initial frame, the compensation flags and the time stamp.
  The last two fields stand for the logger: the time (in milliseconds) at which the
  rate-limited warning was last let through, and the warnings issued so far.
\<close>

record controller =
  m_robot_base_link :: string
  m_end_effector_link :: string
  m_joint_number :: nat
  m_target_frame :: Frame
  m_current_frame :: Frame
  m_initial_frame :: Frame
  m_received_initial_frame :: bool
  m_target_wrench :: vec
  m_cartesian_stiffness :: mat
  m_cartesian_damping :: mat
  m_compensate_gravity :: bool
  m_compensate_coriolis :: bool
  m_last_time :: real
  warn_last_logged :: "nat option"
  warnings :: "(nat \<times> string) list"

text \<open>
  \<open>HOCBFCartesianImpedanceController::computeMotionError\<close>.  The axis-angle extraction
  \<open>GetRotAngle\<close> belongs to the geometry library and is a parameter: it returns the
  angle and the rotation axis of a rotation.
\<close>

definition computeMotionError ::
  "(Rotation \<Rightarrow> real \<times> Vector) \<Rightarrow> real \<Rightarrow> controller \<Rightarrow> vec" where
  "computeMotionError GetRotAngle eps s =
     (let error_M = rot_mul (frame_M (m_target_frame s)) (Inverse (frame_M (m_current_frame s)));
          error_p = vec_minus (frame_p (m_target_frame s)) (frame_p (m_current_frame s));
          angle = fst (GetRotAngle error_M);
          rot_axis = snd (GetRotAngle error_M);
          distance = fst (Normalize eps error_p);
          error_p = snd (Normalize eps error_p);
          max_angle = 1;
          max_distance = 1;
          angle = clamp angle (- max_angle) max_angle;
          distance = clamp distance (- max_distance) max_distance;
          rot_axis = vec_times rot_axis angle;
          error_p = vec_times error_p distance
      in [vx error_p, vy error_p, vz error_p, vx rot_axis, vy rot_axis, vz rot_axis])"

text \<open>
  \<open>CartesianImpedanceController::computeMotionError\<close> of the impedance controller with
  the postural task: no clamping, position error taken as current minus target, rotation
  error from the cross products of the frames' axes.
\<close>

definition computeMotionError_cic :: "controller \<Rightarrow> vec" where
  "computeMotionError_cic s =
     (let vel = vec_minus (frame_p (m_current_frame s)) (frame_p (m_target_frame s));
          rot = vec_times
                  (vec_plus
                     (vec_plus
                        (cross (UnitX (frame_M (m_target_frame s))) (UnitX (frame_M (m_current_frame s))))
                        (cross (UnitY (frame_M (m_target_frame s))) (UnitY (frame_M (m_current_frame s)))))
                     (cross (UnitZ (frame_M (m_target_frame s))) (UnitZ (frame_M (m_current_frame s)))))
                  0.5
      in [vx vel, vy vel, vz vel, vx rot, vy rot, vz rot])"

text \<open>
  \<open>CartesianImpedanceController::computeMotionError\<close> of the third controller file: the
  current frame is computed on the spot by forward kinematics (the argument \<open>JntToCart\<close>
  is its result), nothing is clamped.
\<close>

definition computeMotionError_fk ::
  "(Rotation \<Rightarrow> real \<times> Vector) \<Rightarrow> Frame \<Rightarrow> controller \<Rightarrow> vec" where
  "computeMotionError_fk GetRotAngle JntToCart s =
     (let current_frame = JntToCart;
          error_M = rot_mul (frame_M (m_target_frame s)) (Inverse (frame_M current_frame));
          error_p = vec_minus (frame_p (m_target_frame s)) (frame_p current_frame);
          angle = fst (GetRotAngle error_M);
          rot_axis = snd (GetRotAngle error_M);
          rot_axis = vec_times rot_axis angle
      in [vx error_p, vy error_p, vz error_p, vx rot_axis, vy rot_axis, vz rot_axis])"

section \<open>Target messages\<close>

record PoseStamped =
  pose_frame_id :: string
  position_x :: real
  position_y :: real
  position_z :: real
  orientation_x :: real
  orientation_y :: real
  orientation_z :: real
  orientation_w :: real

record WrenchStamped =
  wrench_frame_id :: string
  force_x :: real
  force_y :: real
  force_z :: real
  torque_x :: real
  torque_y :: real
  torque_z :: real

text \<open>
  Modelled from the spec: the rate-limited warning macro is not defined in the sources.
  A warning is let through when none was let through before, or when at least the
  window \<open>duration\<close> (milliseconds) has passed since the last one let through; otherwise
  it is dropped.  \<open>now\<close> is the reading of the node clock.
\<close>

definition throttle_open :: "nat \<Rightarrow> nat \<Rightarrow> controller \<Rightarrow> bool" where
  "throttle_open duration now s =
     (case warn_last_logged s of None \<Rightarrow> True | Some t0 \<Rightarrow> t0 + duration \<le> now)"

definition WARN_THROTTLE :: "nat \<Rightarrow> nat \<Rightarrow> string \<Rightarrow> controller \<Rightarrow> controller" where
  "WARN_THROTTLE duration now msg s =
     (if throttle_open duration now s
      then s\<lparr>warn_last_logged := Some now, warnings := warnings s @ [(now, msg)]\<rparr>
      else s)"

text \<open>
  \<open>HOCBFCartesianImpedanceController::targetFrameCallback\<close>.  The conversion
  \<open>Quaternion\<close> from a quaternion to a rotation belongs to the geometry library and is
  a parameter.
\<close>

definition targetFrameCallback ::
  "(real \<Rightarrow> real \<Rightarrow> real \<Rightarrow> real \<Rightarrow> Rotation) \<Rightarrow> nat \<Rightarrow> PoseStamped \<Rightarrow> controller \<Rightarrow> controller" where
  "targetFrameCallback Quaternion now target s =
     (if pose_frame_id target \<noteq> m_robot_base_link s
      then WARN_THROTTLE 3000 now
             (''Got target pose in wrong reference frame. Expected: '' @ m_robot_base_link s
                @ '' but got '' @ pose_frame_id target) s
      else
        let s1 = s\<lparr>m_target_frame :=
                     Frame (Quaternion (orientation_x target) (orientation_y target)
                                       (orientation_z target) (orientation_w target))
                           (Vector (position_x target) (position_y target) (position_z target))\<rparr>
        in if \<not> m_received_initial_frame s1
           then s1\<lparr>m_initial_frame := m_target_frame s1, m_received_initial_frame := True\<rparr>
           else s1)"

text \<open>\<open>CartesianImpedanceController::targetFrameCallback\<close>, the same in both files.\<close>

definition targetFrameCallback_cic ::
  "(real \<Rightarrow> real \<Rightarrow> real \<Rightarrow> real \<Rightarrow> Rotation) \<Rightarrow> nat \<Rightarrow> PoseStamped \<Rightarrow> controller \<Rightarrow> controller" where
  "targetFrameCallback_cic Quaternion now target s =
     (if pose_frame_id target \<noteq> m_robot_base_link s
      then WARN_THROTTLE 3000 now
             (''Got target pose in wrong reference frame. Expected: '' @ m_robot_base_link s
                @ '' but got '' @ pose_frame_id target) s
      else
        s\<lparr>m_target_frame :=
            Frame (Quaternion (orientation_x target) (orientation_y target)
                              (orientation_z target) (orientation_w target))
                  (Vector (position_x target) (position_y target) (position_z target))\<rparr>)"

text \<open>
  \<open>EffortControllerBase::displayInBaseLink\<close> for a 6D vector: the forward kinematics of
  the link \<open>from\<close> (the parameter \<open>JntToCart\<close> gives the frame it computes) rotates the
  force block and the torque block of the wrench.
\<close>

definition displayInBaseLink :: "(string \<Rightarrow> Frame) \<Rightarrow> vec \<Rightarrow> string \<Rightarrow> vec" where
  "displayInBaseLink JntToCart vector from =
     (let force = Vector (vector ! 0) (vector ! 1) (vector ! 2);
          torque = Vector (vector ! 3) (vector ! 4) (vector ! 5);
          transform_kdl = JntToCart from;
          force = rot_apply (frame_M transform_kdl) force;
          torque = rot_apply (frame_M transform_kdl) torque
      in [vx force, vy force, vz force, vx torque, vy torque, vz torque])"

text \<open>
  \<open>HOCBFCartesianImpedanceController::targetWrenchCallback\<close>.  The target wrench has
  exactly six entries, all of which the six assignments replace.
\<close>

definition targetWrenchCallback :: "(string \<Rightarrow> Frame) \<Rightarrow> WrenchStamped \<Rightarrow> controller \<Rightarrow> controller" where
  "targetWrenchCallback JntToCart wrench s =
     (let s1 = s\<lparr>m_target_wrench :=
                   [force_x wrench, force_y wrench, force_z wrench,
                    torque_x wrench, torque_y wrench, torque_z wrench]\<rparr>
      in if wrench_frame_id wrench \<noteq> m_robot_base_link s1
         then s1\<lparr>m_target_wrench :=
                   displayInBaseLink JntToCart (m_target_wrench s1) (wrench_frame_id wrench)\<rparr>
         else s1)"

text \<open>\<open>CartesianImpedanceController::targetWrenchCallback\<close>, the same in both files.\<close>

definition targetWrenchCallback_cic :: "WrenchStamped \<Rightarrow> controller \<Rightarrow> controller" where
  "targetWrenchCallback_cic wrench s =
     s\<lparr>m_target_wrench :=
         [force_x wrench, force_y wrench, force_z wrench,
          torque_x wrench, torque_y wrench, torque_z wrench]\<rparr>"

section \<open>Torque computation of the safety-filtered controller\<close>

text \<open>
  What the external collaborators deliver in one tick: forward kinematics of the current
  joint positions, the Jacobian, the joint velocities, forward kinematics of a named link
  (used by \<open>displayInBaseLink\<close>), mass matrix, gravity and Coriolis torques of the
  dynamics solver, and the clock (seconds).
\<close>

record tick_inputs =
  fk_JntToCart :: Frame
  jac_JntToJac :: mat
  joint_velocities :: vec
  fk_link :: "string \<Rightarrow> Frame"
  dyn_JntToMass :: mat
  dyn_JntToGravity :: vec
  dyn_JntToCoriolis :: vec
  clock_now :: real

text \<open>The arguments of one call of the safety filter, in the order of the call.\<close>

record filter_call =
  arg_tau_nominal :: vec
  arg_Lambda :: "mat option"
  arg_jac :: mat
  arg_tau_coriolis :: vec
  arg_current_frame :: Frame
  arg_dot_x :: vec
  arg_dt :: real
  arg_n :: "vec list"
  arg_p :: "vec list"

text \<open>
  \<open>EffortControllerBase::displayInBaseLink\<close> for a 6x6 tensor: the two diagonal 3x3
  blocks are rotated, the off-diagonal blocks of the result are zero.
\<close>

fun rot_matrix :: "Rotation \<Rightarrow> mat" where
  "rot_matrix (Rotation a0 a1 a2 a3 a4 a5 a6 a7 a8) = [[a0, a1, a2], [a3, a4, a5], [a6, a7, a8]]"

definition topLeftCorner :: "mat \<Rightarrow> mat" where
  "topLeftCorner T = map (take 3) (take 3 T)"

definition bottomRightCorner :: "mat \<Rightarrow> mat" where
  "bottomRightCorner T = map (drop 3) (drop 3 T)"

definition displayInBaseLink_tensor :: "(string \<Rightarrow> Frame) \<Rightarrow> mat \<Rightarrow> string \<Rightarrow> mat" where
  "displayInBaseLink_tensor JntToCart tensor from =
     (let R = rot_matrix (frame_M (JntToCart from));
          top = mat_mul (mat_mul R (topLeftCorner tensor)) (transpose R);
          bottom = mat_mul (mat_mul R (bottomRightCorner tensor)) (transpose R)
      in map (\<lambda>row. row @ [0, 0, 0]) top @ map (\<lambda>row. [0, 0, 0] @ row) bottom)"

text \<open>
  The result of \<open>computeTorque\<close>: the returned torque, the published log array, the
  arguments the safety filter was called with, and the controller state afterwards.
\<close>

record tick_result =
  tau :: vec
  published :: "real list"
  filter_args :: filter_call
  state_after :: controller

text \<open>
  \<open>HOCBFCartesianImpedanceController::computeTorque\<close>.  The safety filter is a
  parameter: from its arguments it gives the value that \<open>tau_nominal\<close> holds after the
  call and the log array it returns.  A freshly constructed joint array holds zeros.  The
  pseudo-inverse computed at the start of the source function is not used afterwards and
  is left out.
\<close>

definition computeTorque ::
  "(filter_call \<Rightarrow> vec \<times> real list) \<Rightarrow> (Rotation \<Rightarrow> real \<times> Vector) \<Rightarrow> real
     \<Rightarrow> tick_inputs \<Rightarrow> controller \<Rightarrow> tick_result" where
  "computeTorque hocbfPositionFilter GetRotAngle eps env s =
     (let s = s\<lparr>m_current_frame := fk_JntToCart env\<rparr>;
          jac = jac_JntToJac env;
          q_dot = joint_velocities env;
          current_time = clock_now env;
          dt = current_time - m_last_time s;
          n = [[0, 0, 1]];
          p = [map (\<lambda>a. a * 0.4) [0, 0, 1]];
          motion_error = computeMotionError GetRotAngle eps s;
          base_link_stiffness =
            displayInBaseLink_tensor (fk_link env) (m_cartesian_stiffness s) (m_end_effector_link s);
          base_link_damping =
            displayInBaseLink_tensor (fk_link env) (m_cartesian_damping s) (m_end_effector_link s);
          tau_task =
            mat_vec (transpose jac)
              (vec_sub (mat_vec base_link_stiffness motion_error)
                       (mat_vec base_link_damping (mat_vec jac q_dot)));
          tau_nominal = tau_task;
          tau_coriolis = replicate (m_joint_number s) 0;
          tau_gravity = replicate (m_joint_number s) 0;
          inertia_matrix = dyn_JntToMass env;
          Lambda = mat_inverse (mat_mul (mat_mul jac inertia_matrix) (transpose jac));
          dot_x = mat_vec jac q_dot;
          call = \<lparr>arg_tau_nominal = tau_nominal, arg_Lambda = Lambda, arg_jac = jac,
                  arg_tau_coriolis = tau_coriolis, arg_current_frame = m_current_frame s,
                  arg_dot_x = dot_x, arg_dt = dt, arg_n = n, arg_p = p\<rparr>;
          tau_nominal = fst (hocbfPositionFilter call);
          logs = snd (hocbfPositionFilter call);
          s = s\<lparr>m_last_time := current_time\<rparr>;
          logs = logs @ [hd p ! 2, vz (frame_p (m_current_frame s)), vz (frame_p (m_target_frame s))];
          tau_gravity = (if m_compensate_gravity s then dyn_JntToGravity env else tau_gravity);
          tau_nominal = (if m_compensate_gravity s then vec_add tau_nominal tau_gravity else tau_nominal);
          tau_coriolis = (if m_compensate_coriolis s then dyn_JntToCoriolis env else tau_coriolis);
          tau_nominal = (if m_compensate_coriolis s then vec_add tau_nominal tau_coriolis else tau_nominal)
      in \<lparr>tau = tau_nominal, published = logs, filter_args = call, state_after = s\<rparr>)"

text \<open>
  The operational-space inertia as the spec defines it, for comparison with the value the
  code passes to the filter: the inverse of \<open>J M\<^sup>-\<^sup>1 J\<^sup>T\<close>.
\<close>

definition Lambda_spec :: "mat \<Rightarrow> mat \<Rightarrow> mat option" where
  "Lambda_spec jac inertia_matrix =
     (case mat_inverse inertia_matrix of
        None \<Rightarrow> None
      | Some inertia_inverse \<Rightarrow> mat_inverse (mat_mul (mat_mul jac inertia_inverse) (transpose jac)))"

section \<open>Observations and concrete inputs used by the theorems\<close>

text \<open>A two-joint robot model and two ticks of the effort limiter.\<close>

definition demo_model :: "string \<rightharpoonup> urdf_joint" where
  "demo_model name =
     (if name = ''joint1''
      then Some \<lparr>joint_type = REVOLUTE, limits_upper = Fin 3, limits_lower = Fin (- 3),
                 limits_effort = Fin 10\<rparr>
      else if name = ''joint2''
      then Some \<lparr>joint_type = CONTINUOUS, limits_upper = Fin 0, limits_lower = Fin 0,
                 limits_effort = Fin 0\<rparr>
      else None)"

definition demo_tick :: effort_base where
  "demo_tick =
     \<lparr>m_cmd_interface_types = [HW_IF_EFFORT],
      m_joint_names = [''joint1'', ''joint2''],
      m_efforts = [Fin 25, Fin 25],
      m_joint_effort_limits = [Fin 10, NaN],
      m_joint_cmd_eff_handles = [Fin 0, Fin 0]\<rparr>"

definition nan_tick :: effort_base where
  "nan_tick =
     \<lparr>m_cmd_interface_types = [HW_IF_EFFORT],
      m_joint_names = [''joint1'', ''joint2''],
      m_efforts = [NaN, Fin 3],
      m_joint_effort_limits = [Fin 10, Fin 10],
      m_joint_cmd_eff_handles = [Fin 0, Fin 0]\<rparr>"

text \<open>The translation block and the rotation block of a 6D error.\<close>

definition head3 :: "vec \<Rightarrow> Vector" where
  "head3 e = Vector (e ! 0) (e ! 1) (e ! 2)"

definition tail3 :: "vec \<Rightarrow> Vector" where
  "tail3 e = Vector (e ! 3) (e ! 4) (e ! 5)"

text \<open>The identity matrix of size \<open>n\<close> scaled by \<open>k\<close>.\<close>

definition scaled_identity :: "real \<Rightarrow> nat \<Rightarrow> mat" where
  "scaled_identity k n = map (map (\<lambda>a. k * a)) (identity n)"

text \<open>
  A controller at the origin with identity orientation whose target lies \<open>d\<close> length
  units away along the x axis.
\<close>

definition ctrl_at :: "real \<Rightarrow> controller" where
  "ctrl_at d =
     \<lparr>m_robot_base_link = ''base_link'',
      m_end_effector_link = ''tool0'',
      m_joint_number = 6,
      m_target_frame = Frame Identity (Vector d 0 0),
      m_current_frame = Frame Identity (Vector 0 0 0),
      m_initial_frame = Frame Identity (Vector 0 0 0),
      m_received_initial_frame = False,
      m_target_wrench = [0, 0, 0, 0, 0, 0],
      m_cartesian_stiffness = scaled_identity 500 6,
      m_cartesian_damping = scaled_identity (2 * sqrt 500) 6,
      m_compensate_gravity = True,
      m_compensate_coriolis = True,
      m_last_time = 0,
      warn_last_logged = None,
      warnings = []\<rparr>"

text \<open>An axis-angle extraction that reports the angle \<open>a\<close> about the z axis.\<close>

definition about_z :: "real \<Rightarrow> Rotation \<Rightarrow> real \<times> Vector" where
  "about_z a R = (a, Vector 0 0 1)"

text \<open>Target messages in a foreign frame and in the base frame, and library stand-ins.\<close>

definition wrong_frame_pose :: PoseStamped where
  "wrong_frame_pose =
     \<lparr>pose_frame_id = ''world'', position_x = 1, position_y = 2, position_z = 3,
      orientation_x = 0, orientation_y = 0, orientation_z = 0, orientation_w = 1\<rparr>"

definition base_frame_pose :: PoseStamped where
  "base_frame_pose =
     \<lparr>pose_frame_id = ''base_link'', position_x = 1, position_y = 2, position_z = 3,
      orientation_x = 0, orientation_y = 0, orientation_z = 0, orientation_w = 1\<rparr>"

definition to_identity :: "real \<Rightarrow> real \<Rightarrow> real \<Rightarrow> real \<Rightarrow> Rotation" where
  "to_identity qx qy qz qw = Identity"

definition tool_wrench :: WrenchStamped where
  "tool_wrench =
     \<lparr>wrench_frame_id = ''tool0'', force_x = 1, force_y = 0, force_z = 0,
      torque_x = 0, torque_y = 0, torque_z = 0\<rparr>"

definition quarter_turn :: "string \<Rightarrow> Frame" where
  "quarter_turn link = Frame (Rotation 0 (- 1) 0 1 0 0 0 0 1) (Vector 0 0 0)"

text \<open>The text of the warning of the target-pose callbacks.\<close>

definition pose_warning :: "PoseStamped \<Rightarrow> controller \<Rightarrow> string" where
  "pose_warning target s =
     ''Got target pose in wrong reference frame. Expected: '' @ m_robot_base_link s
       @ '' but got '' @ pose_frame_id target"

text \<open>
  A safety filter that leaves the nominal torque as it is and logs nothing, and a tick of
  a six-joint arm whose Jacobian is the identity (three prismatic axes and a wrist whose
  axes are aligned with the base frame) and whose mass matrix is twice the identity.
\<close>

definition pass_through :: "filter_call \<Rightarrow> vec \<times> real list" where
  "pass_through call = (arg_tau_nominal call, [])"

definition gantry_tick :: tick_inputs where
  "gantry_tick =
     \<lparr>fk_JntToCart = Frame Identity (Vector 0 0 0),
      jac_JntToJac = identity 6,
      joint_velocities = [0, 0, 0, 0, 0, 0],
      fk_link = (\<lambda>link. Frame Identity (Vector 0 0 0)),
      dyn_JntToMass = scaled_identity 2 6,
      dyn_JntToGravity = [0, 0, 10, 0, 0, 0],
      dyn_JntToCoriolis = [1, 0, 0, 0, 0, 0],
      clock_now = 1 / 1000\<rparr>"

section \<open>Properties of the effort limiter\<close>

lemma write_joint_Some:
  assumes "sized s" "i < length (m_joint_names s)"
  shows "write_joint i s =
    Some (s\<lparr>m_efforts := (m_efforts s)[i := saturated (m_joint_effort_limits s ! i) (m_efforts s ! i)],
            m_joint_cmd_eff_handles :=
              (m_joint_cmd_eff_handles s)[i := saturated (m_joint_effort_limits s ! i) (m_efforts s ! i)]\<rparr>)"
  using assms by (simp add: write_joint_def sized_def saturated_def Let_def)

lemma joint_loop_result:
  assumes "sized s" "\<forall>i \<in> set js. i < length (m_joint_names s)" "distinct js"
  shows "\<exists>s'. joint_loop js s = Some s' \<and> sized s'
      \<and> m_joint_names s' = m_joint_names s
      \<and> m_cmd_interface_types s' = m_cmd_interface_types s
      \<and> m_joint_effort_limits s' = m_joint_effort_limits s
      \<and> (\<forall>i < length (m_joint_names s).
            m_efforts s' ! i =
              (if i \<in> set js then saturated (m_joint_effort_limits s ! i) (m_efforts s ! i)
               else m_efforts s ! i)
          \<and> m_joint_cmd_eff_handles s' ! i =
              (if i \<in> set js then saturated (m_joint_effort_limits s ! i) (m_efforts s ! i)
               else m_joint_cmd_eff_handles s ! i))"
  using assms
proof (induction js arbitrary: s)
  case Nil
  then show ?case by simp
next
  case (Cons j js)
  let ?v = "saturated (m_joint_effort_limits s ! j) (m_efforts s ! j)"
  let ?s1 = "s\<lparr>m_efforts := (m_efforts s)[j := ?v],
               m_joint_cmd_eff_handles := (m_joint_cmd_eff_handles s)[j := ?v]\<rparr>"
  have j: "j < length (m_joint_names s)" using Cons.prems(2) by simp
  have w: "write_joint j s = Some ?s1"
    using write_joint_Some [OF Cons.prems(1) j] .
  have s1: "sized ?s1" using Cons.prems(1) by (simp add: sized_def)
  have b1: "\<forall>i \<in> set js. i < length (m_joint_names ?s1)" using Cons.prems(2) by simp
  have d1: "distinct js" using Cons.prems(3) by simp
  from Cons.IH [OF s1 b1 d1] obtain s' where
    r: "joint_loop js ?s1 = Some s'" "sized s'"
       "m_joint_names s' = m_joint_names ?s1"
       "m_cmd_interface_types s' = m_cmd_interface_types ?s1"
       "m_joint_effort_limits s' = m_joint_effort_limits ?s1"
    and e: "\<forall>i < length (m_joint_names ?s1).
            m_efforts s' ! i =
              (if i \<in> set js then saturated (m_joint_effort_limits ?s1 ! i) (m_efforts ?s1 ! i)
               else m_efforts ?s1 ! i)
          \<and> m_joint_cmd_eff_handles s' ! i =
              (if i \<in> set js then saturated (m_joint_effort_limits ?s1 ! i) (m_efforts ?s1 ! i)
               else m_joint_cmd_eff_handles ?s1 ! i)"
    by blast
  have notin: "j \<notin> set js" using Cons.prems(3) by simp
  have len: "length (m_efforts s) = length (m_joint_names s)"
            "length (m_joint_cmd_eff_handles s) = length (m_joint_names s)"
    using Cons.prems(1) by (simp_all add: sized_def)
  have "\<forall>i < length (m_joint_names s).
            m_efforts s' ! i =
              (if i \<in> set (j # js) then saturated (m_joint_effort_limits s ! i) (m_efforts s ! i)
               else m_efforts s ! i)
          \<and> m_joint_cmd_eff_handles s' ! i =
              (if i \<in> set (j # js) then saturated (m_joint_effort_limits s ! i) (m_efforts s ! i)
               else m_joint_cmd_eff_handles s ! i)"
  proof (intro allI impI)
    fix i assume i: "i < length (m_joint_names s)"
    from e i have ei:
      "m_efforts s' ! i =
              (if i \<in> set js then saturated (m_joint_effort_limits ?s1 ! i) (m_efforts ?s1 ! i)
               else m_efforts ?s1 ! i)"
      "m_joint_cmd_eff_handles s' ! i =
              (if i \<in> set js then saturated (m_joint_effort_limits ?s1 ! i) (m_efforts ?s1 ! i)
               else m_joint_cmd_eff_handles ?s1 ! i)"
      by simp_all
    show "m_efforts s' ! i =
              (if i \<in> set (j # js) then saturated (m_joint_effort_limits s ! i) (m_efforts s ! i)
               else m_efforts s ! i)
          \<and> m_joint_cmd_eff_handles s' ! i =
              (if i \<in> set (j # js) then saturated (m_joint_effort_limits s ! i) (m_efforts s ! i)
               else m_joint_cmd_eff_handles s ! i)"
    proof (cases "i = j")
      case True
      then show ?thesis using ei notin len j by simp
    next
      case False
      then show ?thesis using ei by simp
    qed
  qed
  then show ?case using w r by simp
qed

lemma type_loop_result:
  assumes "sized s" "i < length (m_joint_names s)"
  shows "\<exists>s'. type_loop ts s = Some s' \<and> sized s'
      \<and> m_joint_names s' = m_joint_names s
      \<and> m_joint_effort_limits s' = m_joint_effort_limits s
      \<and> m_efforts s' ! i =
          (saturated (m_joint_effort_limits s ! i) ^^ length (filter (\<lambda>t. t = HW_IF_EFFORT) ts))
            (m_efforts s ! i)
      \<and> m_joint_cmd_eff_handles s' ! i =
          (if HW_IF_EFFORT \<in> set ts
           then (saturated (m_joint_effort_limits s ! i) ^^ length (filter (\<lambda>t. t = HW_IF_EFFORT) ts))
                  (m_efforts s ! i)
           else m_joint_cmd_eff_handles s ! i)"
  using assms
proof (induction ts arbitrary: s)
  case Nil
  then show ?case by simp
next
  case (Cons t ts)
  show ?case
  proof (cases "t = HW_IF_EFFORT")
    case False
    then show ?thesis using Cons.IH [OF Cons.prems] by auto
  next
    case True
    let ?n = "length (m_joint_names s)"
    let ?l = "m_joint_effort_limits s ! i"
    have "\<forall>k \<in> set [0..<?n]. k < ?n" by simp
    from joint_loop_result [OF Cons.prems(1) this distinct_upt]
    obtain s1 where
      s1: "joint_loop [0..<?n] s = Some s1" "sized s1"
          "m_joint_names s1 = m_joint_names s"
          "m_joint_effort_limits s1 = m_joint_effort_limits s"
      and e1: "\<forall>k < ?n.
            m_efforts s1 ! k =
              (if k \<in> set [0..<?n] then saturated (m_joint_effort_limits s ! k) (m_efforts s ! k)
               else m_efforts s ! k)
          \<and> m_joint_cmd_eff_handles s1 ! k =
              (if k \<in> set [0..<?n] then saturated (m_joint_effort_limits s ! k) (m_efforts s ! k)
               else m_joint_cmd_eff_handles s ! k)"
      by blast
    from e1 Cons.prems(2) have i1:
      "m_efforts s1 ! i = saturated ?l (m_efforts s ! i)"
      "m_joint_cmd_eff_handles s1 ! i = saturated ?l (m_efforts s ! i)"
      by simp_all
    have b1: "i < length (m_joint_names s1)" using Cons.prems(2) s1(3) by simp
    from Cons.IH [OF s1(2) b1] obtain s' where
      r: "type_loop ts s1 = Some s'" "sized s'"
         "m_joint_names s' = m_joint_names s1"
         "m_joint_effort_limits s' = m_joint_effort_limits s1"
         "m_efforts s' ! i =
            (saturated (m_joint_effort_limits s1 ! i) ^^ length (filter (\<lambda>t. t = HW_IF_EFFORT) ts))
              (m_efforts s1 ! i)"
         "m_joint_cmd_eff_handles s' ! i =
            (if HW_IF_EFFORT \<in> set ts
             then (saturated (m_joint_effort_limits s1 ! i) ^^ length (filter (\<lambda>t. t = HW_IF_EFFORT) ts))
                    (m_efforts s1 ! i)
             else m_joint_cmd_eff_handles s1 ! i)"
      by blast
    have none: "HW_IF_EFFORT \<notin> set ts \<Longrightarrow> filter (\<lambda>t. t = HW_IF_EFFORT) ts = []"
      by (auto simp: filter_empty_conv)
    have tl: "type_loop (t # ts) s = Some s'" using True s1(1) r(1) by simp
    have ef: "m_efforts s' ! i =
          (saturated ?l ^^ length (filter (\<lambda>t. t = HW_IF_EFFORT) (t # ts))) (m_efforts s ! i)"
      using True r(5) s1(4) i1(1) by (simp add: funpow_swap1)
    have hd: "m_joint_cmd_eff_handles s' ! i =
          (saturated ?l ^^ length (filter (\<lambda>t. t = HW_IF_EFFORT) (t # ts))) (m_efforts s ! i)"
      using True r(6) s1(4) i1 none by (simp add: funpow_swap1)
    show ?thesis using tl r(2,3,4) s1(3,4) ef hd True by simp
  qed
qed

lemma saturated_NaN_effort: "saturated l NaN = NaN"
  by (cases l) (simp_all add: saturated_def dbl_le_def)

lemma saturated_NaN_limit: "saturated NaN e = e"
  by (cases e) (simp_all add: saturated_def dbl_le_def)

lemma saturated_idem:
  assumes "l = NaN \<or> dbl_ge l (Fin 0)"
  shows "saturated l (saturated l e) = saturated l e"
  using assms by (cases l; cases e) (auto simp: saturated_def dbl_le_def)

lemma saturated_funpow_NaN: "(saturated l ^^ k) NaN = NaN"
  by (induction k) (simp_all add: saturated_NaN_effort)

lemma saturated_funpow_idem:
  assumes "l = NaN \<or> dbl_ge l (Fin 0)"
  shows "(saturated l ^^ Suc k) e = saturated l e"
  using assms by (induction k) (simp_all add: saturated_idem)

lemma parse_joint_limits_length:
  assumes "parse_joint_limits robot_model names = Inr (upper, lower, effort)"
  shows "length effort = length names"
  using assms
proof (induction names arbitrary: upper lower effort)
  case Nil
  then show ?case by simp
next
  case (Cons name names)
  from Cons.prems obtain j0 where j0: "robot_model name = Some j0"
    by (auto split: option.splits)
  from Cons.prems j0 obtain u l e where
    rest: "parse_joint_limits robot_model names = Inr (u, l, e)"
    by (auto split: sum.splits)
  from Cons.prems j0 rest have "length effort = Suc (length e)"
    by (auto split: if_splits)
  then show ?case using Cons.IH [OF rest] by simp
qed

lemma parse_joint_limits_effort:
  assumes "parse_joint_limits robot_model names = Inr (upper, lower, effort)"
      and "i < length names" "robot_model (names ! i) = Some j"
  shows "effort ! i = (if joint_type j = CONTINUOUS then NaN else limits_effort j)"
  using assms
proof (induction names arbitrary: upper lower effort i)
  case Nil
  then show ?case by simp
next
  case (Cons name names)
  from Cons.prems(1) obtain j0 where j0: "robot_model name = Some j0"
    by (auto split: option.splits)
  from Cons.prems(1) j0 obtain u l e where
    rest: "parse_joint_limits robot_model names = Inr (u, l, e)"
    by (auto split: sum.splits)
  from Cons.prems(1) j0 rest have eff:
    "effort = (if joint_type j0 = CONTINUOUS then NaN else limits_effort j0) # e"
    by (auto split: if_splits)
  show ?case
  proof (cases i)
    case 0
    then have "j = j0" using Cons.prems(3) j0 by simp
    then show ?thesis using 0 eff by simp
  next
    case (Suc k)
    then have "k < length names" "robot_model (names ! k) = Some j"
      using Cons.prems(2,3) by simp_all
    from Cons.IH [OF rest this] show ?thesis using Suc eff by simp
  qed
qed

lemma write_result:
  assumes "sized s" "HW_IF_EFFORT \<in> set (m_cmd_interface_types s)" "i < length (m_joint_names s)"
      and "m_joint_effort_limits s ! i = NaN \<or> dbl_ge (m_joint_effort_limits s ! i) (Fin 0)"
  shows "\<exists>s'. writeJointEffortCmds s = Some s'
      \<and> m_joint_cmd_eff_handles s' ! i = saturated (m_joint_effort_limits s ! i) (m_efforts s ! i)"
proof -
  let ?ts = "m_cmd_interface_types s"
  let ?k = "length (filter (\<lambda>t. t = HW_IF_EFFORT) ?ts)"
  have "filter (\<lambda>t. t = HW_IF_EFFORT) ?ts \<noteq> []"
    using assms(2) by (auto simp: filter_empty_conv)
  then obtain k where k: "?k = Suc k" by (cases "filter (\<lambda>t. t = HW_IF_EFFORT) ?ts") auto
  from type_loop_result [OF assms(1,3), of ?ts] obtain s' where
    "type_loop ?ts s = Some s'"
    "m_joint_cmd_eff_handles s' ! i = (saturated (m_joint_effort_limits s ! i) ^^ ?k) (m_efforts s ! i)"
    using assms(2) by auto
  then show ?thesis
    using saturated_funpow_idem [OF assms(4), of k "m_efforts s ! i"] k
    by (simp add: writeJointEffortCmds_def)
qed

lemma write_result_NaN:
  assumes "sized s" "HW_IF_EFFORT \<in> set (m_cmd_interface_types s)" "i < length (m_joint_names s)"
      and "m_efforts s ! i = NaN"
  shows "\<exists>s'. writeJointEffortCmds s = Some s' \<and> m_joint_cmd_eff_handles s' ! i = NaN"
proof -
  let ?ts = "m_cmd_interface_types s"
  from type_loop_result [OF assms(1,3), of ?ts] obtain s' where
    "type_loop ?ts s = Some s'"
    "m_joint_cmd_eff_handles s' ! i =
       (saturated (m_joint_effort_limits s ! i) ^^ length (filter (\<lambda>t. t = HW_IF_EFFORT) ?ts)) (m_efforts s ! i)"
    using assms(2) by auto
  then show ?thesis
    using assms(4) by (simp add: writeJointEffortCmds_def saturated_funpow_NaN)
qed

lemma saturated_cases:
  assumes "0 \<le> L"
  shows "(dbl_ge e (Fin (- L)) \<and> dbl_le e (Fin L) \<longrightarrow> saturated (Fin L) e = e)
       \<and> (dbl_gt e (Fin L) \<longrightarrow> saturated (Fin L) e = Fin L)
       \<and> (dbl_lt e (Fin (- L)) \<longrightarrow> saturated (Fin L) e = Fin (- L))"
  using assms by (cases e) (auto simp: saturated_def dbl_le_def dbl_lt_def)

text \<open>
  Claim C4.  Let the effort limits be the ones \<open>on_configure\<close> read from the robot
  model.  For a joint that is not continuous and has the finite effort limit \<open>L\<close>, the
  value written to the joint's effort command interface is the computed effort when that
  lies in \<open>[-L, L]\<close>, exactly \<open>L\<close> when it exceeds \<open>L\<close>, and exactly \<open>-L\<close> when it falls
  below \<open>-L\<close>.  For a continuous joint, whose limit is set to NaN, and for any joint whose
  limit is NaN, the computed effort is written unchanged.  An effort limit is the
  magnitude of the largest admissible effort, so \<open>L\<close> is not negative: the interval
  \<open>[-L, L]\<close> of the claim is empty otherwise.
\<close>

theorem effort_saturation:
  assumes "parse_joint_limits robot_model (m_joint_names s) =
             Inr (upper, lower, m_joint_effort_limits s)"
      and "sized s"
      and "HW_IF_EFFORT \<in> set (m_cmd_interface_types s)"
      and "i < length (m_joint_names s)"
      and "robot_model (m_joint_names s ! i) = Some j"
      and "joint_type j = CONTINUOUS \<or> limits_effort j = NaN \<or> dbl_ge (limits_effort j) (Fin 0)"
  shows "\<exists>s'. writeJointEffortCmds s = Some s'
      \<and> (joint_type j = CONTINUOUS \<or> limits_effort j = NaN \<longrightarrow>
            m_joint_cmd_eff_handles s' ! i = m_efforts s ! i)
      \<and> (\<forall>L. joint_type j \<noteq> CONTINUOUS \<and> limits_effort j = Fin L \<longrightarrow>
            (dbl_ge (m_efforts s ! i) (Fin (- L)) \<and> dbl_le (m_efforts s ! i) (Fin L) \<longrightarrow>
               m_joint_cmd_eff_handles s' ! i = m_efforts s ! i)
          \<and> (dbl_gt (m_efforts s ! i) (Fin L) \<longrightarrow> m_joint_cmd_eff_handles s' ! i = Fin L)
          \<and> (dbl_lt (m_efforts s ! i) (Fin (- L)) \<longrightarrow> m_joint_cmd_eff_handles s' ! i = Fin (- L)))"
proof -
  let ?l = "m_joint_effort_limits s ! i"
  have l: "?l = (if joint_type j = CONTINUOUS then NaN else limits_effort j)"
    using parse_joint_limits_effort [OF assms(1,4,5)] .
  have good: "?l = NaN \<or> dbl_ge ?l (Fin 0)"
    using l assms(6) by auto
  from write_result [OF assms(2,3,4) good] obtain s' where
    w: "writeJointEffortCmds s = Some s'"
       "m_joint_cmd_eff_handles s' ! i = saturated ?l (m_efforts s ! i)"
    by blast
  have a: "joint_type j = CONTINUOUS \<or> limits_effort j = NaN \<longrightarrow>
            m_joint_cmd_eff_handles s' ! i = m_efforts s ! i"
    using w(2) l by (auto simp: saturated_NaN_limit)
  have b: "\<forall>L. joint_type j \<noteq> CONTINUOUS \<and> limits_effort j = Fin L \<longrightarrow>
            (dbl_ge (m_efforts s ! i) (Fin (- L)) \<and> dbl_le (m_efforts s ! i) (Fin L) \<longrightarrow>
               m_joint_cmd_eff_handles s' ! i = m_efforts s ! i)
          \<and> (dbl_gt (m_efforts s ! i) (Fin L) \<longrightarrow> m_joint_cmd_eff_handles s' ! i = Fin L)
          \<and> (dbl_lt (m_efforts s ! i) (Fin (- L)) \<longrightarrow> m_joint_cmd_eff_handles s' ! i = Fin (- L))"
  proof (intro allI impI)
    fix L assume h: "joint_type j \<noteq> CONTINUOUS \<and> limits_effort j = Fin L"
    then have "?l = Fin L" using l by simp
    moreover have "0 \<le> L" using h assms(6) by auto
    ultimately show "(dbl_ge (m_efforts s ! i) (Fin (- L)) \<and> dbl_le (m_efforts s ! i) (Fin L) \<longrightarrow>
               m_joint_cmd_eff_handles s' ! i = m_efforts s ! i)
          \<and> (dbl_gt (m_efforts s ! i) (Fin L) \<longrightarrow> m_joint_cmd_eff_handles s' ! i = Fin L)
          \<and> (dbl_lt (m_efforts s ! i) (Fin (- L)) \<longrightarrow> m_joint_cmd_eff_handles s' ! i = Fin (- L))"
      using saturated_cases [of L "m_efforts s ! i"] w(2) by simp
  qed
  show ?thesis using w(1) a b by blast
qed

text \<open>
  Witness for C4: a revolute joint with limit 10 and a continuous joint, both with the
  computed effort 25; 10 and 25 are written.
\<close>

theorem effort_saturation_witness:
  "\<exists>s'. writeJointEffortCmds demo_tick = Some s'
     \<and> m_joint_cmd_eff_handles s' ! 0 = Fin 10
     \<and> m_joint_cmd_eff_handles s' ! 1 = Fin 25"
proof -
  have p: "parse_joint_limits demo_model (m_joint_names demo_tick) =
             Inr ([Fin 3, NaN], [Fin (- 3), NaN], m_joint_effort_limits demo_tick)"
    by (simp add: demo_model_def demo_tick_def)
  have s: "sized demo_tick" by (simp add: sized_def demo_tick_def)
  have t: "HW_IF_EFFORT \<in> set (m_cmd_interface_types demo_tick)" by (simp add: demo_tick_def)
  have i0: "0 < length (m_joint_names demo_tick)" by (simp add: demo_tick_def)
  have i1: "1 < length (m_joint_names demo_tick)" by (simp add: demo_tick_def)
  have j0: "demo_model (m_joint_names demo_tick ! 0) =
     Some \<lparr>joint_type = REVOLUTE, limits_upper = Fin 3, limits_lower = Fin (- 3), limits_effort = Fin 10\<rparr>"
    by (simp add: demo_model_def demo_tick_def)
  have j1: "demo_model (m_joint_names demo_tick ! 1) =
     Some \<lparr>joint_type = CONTINUOUS, limits_upper = Fin 0, limits_lower = Fin 0, limits_effort = Fin 0\<rparr>"
    by (simp add: demo_model_def demo_tick_def)
  from effort_saturation [OF p s t i0 j0] effort_saturation [OF p s t i1 j1]
  show ?thesis by (auto simp: demo_tick_def)
qed

text \<open>
  Claim C3 says that a tick whose final torque has a non-finite entry writes zero to every
  joint.  The write-out has no such check.  Counterexample: with the efforts \<open>[NaN, 3]\<close>
  and both limits 10, the values written are \<open>[NaN, 3]\<close>, none of them zero.
\<close>

theorem nonfinite_effort_counterexample:
  "\<not> is_finite (m_efforts nan_tick ! 0)
   \<and> writeJointEffortCmds nan_tick = Some (nan_tick\<lparr>m_joint_cmd_eff_handles := [NaN, Fin 3]\<rparr>)
   \<and> NaN \<noteq> Fin 0 \<and> Fin 3 \<noteq> Fin 0"
  by (simp add: nan_tick_def writeJointEffortCmds_def write_joint_def HW_IF_EFFORT_def dbl_le_def)

text \<open>
  Claim C3, amended.  In a tick whose effort vector has a non-finite entry for joint \<open>i\<close>,
  nothing is set to zero: a NaN entry is written to the joint's effort command interface
  as NaN; under a NaN limit an infinite entry is written unchanged; under a finite limit
  \<open>L \<ge> 0\<close> the entry \<open>+\<infinity>\<close> is written as \<open>L\<close> and the entry \<open>-\<infinity>\<close> as \<open>-L\<close>.
\<close>

theorem nonfinite_effort_written:
  assumes "sized s"
      and "HW_IF_EFFORT \<in> set (m_cmd_interface_types s)"
      and "i < length (m_joint_names s)"
      and "\<not> is_finite (m_efforts s ! i)"
  shows "\<exists>s'. writeJointEffortCmds s = Some s'
      \<and> (m_efforts s ! i = NaN \<longrightarrow> m_joint_cmd_eff_handles s' ! i = NaN)
      \<and> (m_joint_effort_limits s ! i = NaN \<longrightarrow> m_joint_cmd_eff_handles s' ! i = m_efforts s ! i)
      \<and> (\<forall>L. m_joint_effort_limits s ! i = Fin L \<and> 0 \<le> L \<longrightarrow>
            (m_efforts s ! i = PInf \<longrightarrow> m_joint_cmd_eff_handles s' ! i = Fin L)
          \<and> (m_efforts s ! i = NInf \<longrightarrow> m_joint_cmd_eff_handles s' ! i = Fin (- L)))"
proof -
  let ?ts = "m_cmd_interface_types s"
  let ?l = "m_joint_effort_limits s ! i"
  let ?e = "m_efforts s ! i"
  let ?k = "length (filter (\<lambda>t. t = HW_IF_EFFORT) ?ts)"
  have "filter (\<lambda>t. t = HW_IF_EFFORT) ?ts \<noteq> []"
    using assms(2) by (auto simp: filter_empty_conv)
  then obtain k where k: "?k = Suc k" by (cases "filter (\<lambda>t. t = HW_IF_EFFORT) ?ts") auto
  from type_loop_result [OF assms(1,3), of ?ts] obtain s' where
    w: "type_loop ?ts s = Some s'"
       "m_joint_cmd_eff_handles s' ! i = (saturated ?l ^^ ?k) ?e"
    using assms(2) by auto
  have a: "?e = NaN \<longrightarrow> m_joint_cmd_eff_handles s' ! i = NaN"
    using w(2) by (simp add: saturated_funpow_NaN)
  have b: "?l = NaN \<longrightarrow> m_joint_cmd_eff_handles s' ! i = ?e"
  proof
    assume h: "?l = NaN"
    then have "(saturated ?l ^^ Suc k) ?e = saturated ?l ?e"
      using saturated_funpow_idem [of ?l k ?e] by simp
    then show "m_joint_cmd_eff_handles s' ! i = ?e"
      using w(2) k h by (simp add: saturated_NaN_limit)
  qed
  have c: "\<forall>L. ?l = Fin L \<and> 0 \<le> L \<longrightarrow>
            (?e = PInf \<longrightarrow> m_joint_cmd_eff_handles s' ! i = Fin L)
          \<and> (?e = NInf \<longrightarrow> m_joint_cmd_eff_handles s' ! i = Fin (- L))"
  proof (intro allI impI)
    fix L assume h: "?l = Fin L \<and> 0 \<le> L"
    then have "(saturated ?l ^^ Suc k) ?e = saturated ?l ?e"
      using saturated_funpow_idem [of ?l k ?e] by simp
    then have "m_joint_cmd_eff_handles s' ! i = saturated (Fin L) ?e"
      using w(2) k h by simp
    then show "(?e = PInf \<longrightarrow> m_joint_cmd_eff_handles s' ! i = Fin L)
          \<and> (?e = NInf \<longrightarrow> m_joint_cmd_eff_handles s' ! i = Fin (- L))"
      by (auto simp: saturated_def dbl_le_def)
  qed
  show ?thesis using w(1) a b c by (simp add: writeJointEffortCmds_def)
qed

text \<open>Witness for the amended C3: the NaN effort of the first joint is written as NaN.\<close>

theorem nonfinite_effort_written_witness:
  "\<exists>s'. writeJointEffortCmds nan_tick = Some s' \<and> m_joint_cmd_eff_handles s' ! 0 = NaN"
proof -
  have s: "sized nan_tick" by (simp add: sized_def nan_tick_def)
  have t: "HW_IF_EFFORT \<in> set (m_cmd_interface_types nan_tick)" by (simp add: nan_tick_def)
  have i0: "0 < length (m_joint_names nan_tick)" by (simp add: nan_tick_def)
  have n: "\<not> is_finite (m_efforts nan_tick ! 0)" by (simp add: nan_tick_def)
  from nonfinite_effort_written [OF s t i0 n]
  show ?thesis by (auto simp: nan_tick_def)
qed

text \<open>
  The same through the last two steps of \<open>update\<close>: a NaN entry of the torque returned
  by \<open>computeTorque\<close> reaches the command interface.
\<close>

lemma update_write_NaN:
  assumes "sized s" "length tau_tot = length (m_joint_names s)"
      and "HW_IF_EFFORT \<in> set (m_cmd_interface_types s)"
      and "i < length (m_joint_names s)" "tau_tot ! i = NaN"
  shows "\<exists>s'. update_write tau_tot s = Some s' \<and> m_joint_cmd_eff_handles s' ! i = NaN"
proof -
  let ?s = "computeJointEffortCmds tau_tot s"
  have "sized ?s" using assms(1,2) by (simp add: sized_def computeJointEffortCmds_def)
  moreover have "HW_IF_EFFORT \<in> set (m_cmd_interface_types ?s)"
    using assms(3) by (simp add: computeJointEffortCmds_def)
  moreover have "i < length (m_joint_names ?s)"
    using assms(4) by (simp add: computeJointEffortCmds_def)
  moreover have "m_efforts ?s ! i = NaN" using assms(5) by (simp add: computeJointEffortCmds_def)
  ultimately show ?thesis unfolding update_write_def by (rule write_result_NaN)
qed

section \<open>Properties of the motion error\<close>

lemma Norm_nonneg: "0 \<le> Norm v"
  by (cases v) simp

lemma Norm_vec_times: "Norm (vec_times v k) = \<bar>k\<bar> * Norm v"
proof (cases v)
  case (Vector a b c)
  have "a * k * (a * k) + b * k * (b * k) + c * k * (c * k) = (k * k) * (a * a + b * b + c * c)"
    by (simp add: algebra_simps)
  then show ?thesis using Vector by (simp add: real_sqrt_mult)
qed

lemma vec_div_times: "k \<noteq> 0 \<Longrightarrow> vec_times (vec_div v k) k = v"
  by (cases v) simp

lemma Norm_vec_div: "Norm v \<noteq> 0 \<Longrightarrow> Norm (vec_div v (Norm v)) = 1"
proof -
  assume n: "Norm v \<noteq> 0"
  have "Norm (vec_times (vec_div v (Norm v)) (Norm v)) = \<bar>Norm v\<bar> * Norm (vec_div v (Norm v))"
    by (rule Norm_vec_times)
  then have "Norm v = Norm v * Norm (vec_div v (Norm v))"
    using n Norm_nonneg [of v] by (simp add: vec_div_times)
  then show ?thesis using n by simp
qed

lemma Normalize_unit:
  assumes "0 < eps"
  shows "Norm (snd (Normalize eps v)) = 1"
proof (cases "Norm v < eps")
  case True
  then show ?thesis by (simp add: Normalize_def)
next
  case False
  then have "Norm v \<noteq> 0" using assms by simp
  then show ?thesis using False by (simp add: Normalize_def Norm_vec_div)
qed

lemma Normalize_norm: "0 \<le> fst (Normalize eps v)"
  by (simp add: Normalize_def Norm_nonneg)

lemma clamp_nonneg: "0 \<le> d \<Longrightarrow> clamp d (- 1) 1 = min d 1"
  by (simp add: clamp_def min_def)

lemma clamp_abs: "\<bar>clamp a (- 1) 1\<bar> = min \<bar>a\<bar> 1"
  by (simp add: clamp_def min_def abs_if)

lemma head3_computeMotionError:
  "head3 (computeMotionError GetRotAngle eps s) =
     vec_times (snd (Normalize eps (vec_minus (frame_p (m_target_frame s)) (frame_p (m_current_frame s)))))
       (clamp (fst (Normalize eps (vec_minus (frame_p (m_target_frame s)) (frame_p (m_current_frame s))))) (- 1) 1)"
  by (simp add: computeMotionError_def head3_def Let_def)

lemma tail3_computeMotionError:
  "tail3 (computeMotionError GetRotAngle eps s) =
     vec_times (snd (GetRotAngle (rot_mul (frame_M (m_target_frame s)) (Inverse (frame_M (m_current_frame s))))))
       (clamp (fst (GetRotAngle (rot_mul (frame_M (m_target_frame s)) (Inverse (frame_M (m_current_frame s)))))) (- 1) 1)"
  by (simp add: computeMotionError_def tail3_def Let_def)

lemma vec_div_times_scale: "vec_times (vec_div v n) k = vec_times v (k / n)"
  by (cases v) simp

lemma vec_times_one: "vec_times v 1 = v"
  by (cases v) simp

lemma Normalize_short: "Norm v < eps \<Longrightarrow> Normalize eps v = (0, Vector 1 0 0)"
  by (simp add: Normalize_def)

lemma Normalize_long: "eps \<le> Norm v \<Longrightarrow> Normalize eps v = (Norm v, vec_div v (Norm v))"
  by (simp add: Normalize_def)

text \<open>
  Claim C2.  For every target and current frame, the motion error of the safety-filtered
  controller has a translation block of norm at most 1 and a rotation block of norm at
  most 1.  The translation block keeps the direction of target position minus current
  position: it is that difference multiplied by a positive factor, equal to the
  difference itself when the distance is at most 1, and the difference divided by its
  length (the unit direction, magnitude 1) when the distance exceeds 1.  A difference
  shorter than the tolerance of \<open>Normalize\<close> counts as distance 0 and gives the zero
  block.  The rotation block is the rotation axis of target orientation composed with the
  inverse of current orientation, scaled by the angle when that lies in \<open>[-1, 1]\<close>, by 1
  above and by -1 below.  The axis-angle extraction is assumed to return a unit axis, as
  the source comments, and the tolerance of \<open>Normalize\<close> is positive.
\<close>

theorem motion_error_clamped:
  assumes "0 < eps"
      and "Norm (snd (GetRotAngle (rot_mul (frame_M (m_target_frame s))
                                            (Inverse (frame_M (m_current_frame s)))))) = 1"
  shows "(let dp = vec_minus (frame_p (m_target_frame s)) (frame_p (m_current_frame s));
              d = Normalize eps dp;
              r = GetRotAngle (rot_mul (frame_M (m_target_frame s)) (Inverse (frame_M (m_current_frame s))));
              e = computeMotionError GetRotAngle eps s
          in Norm (head3 e) \<le> 1
           \<and> Norm (tail3 e) \<le> 1
           \<and> (eps \<le> Norm dp \<longrightarrow>
                 head3 e = vec_times dp (min (Norm dp) 1 / Norm dp)
               \<and> 0 < min (Norm dp) 1 / Norm dp
               \<and> Norm (head3 e) = min (Norm dp) 1)
           \<and> (eps \<le> Norm dp \<and> Norm dp \<le> 1 \<longrightarrow> head3 e = dp)
           \<and> (eps \<le> Norm dp \<and> 1 < Norm dp \<longrightarrow> head3 e = vec_div dp (Norm dp))
           \<and> (Norm dp < eps \<longrightarrow> head3 e = Vector 0 0 0)
           \<and> tail3 e = vec_times (snd r) (clamp (fst r) (- 1) 1)
           \<and> Norm (tail3 e) = min \<bar>fst r\<bar> 1
           \<and> (\<bar>fst r\<bar> \<le> 1 \<longrightarrow> tail3 e = vec_times (snd r) (fst r))
           \<and> (1 < fst r \<longrightarrow> tail3 e = snd r)
           \<and> (fst r < - 1 \<longrightarrow> tail3 e = vec_times (snd r) (- 1))
           \<and> head3 e = vec_times (snd d) (min (fst d) 1)
           \<and> Norm (snd d) = 1
           \<and> Norm (head3 e) = min (fst d) 1
           \<and> (0 \<le> fst r \<longrightarrow> clamp (fst r) (- 1) 1 = min (fst r) 1))"
proof -
  let ?dp = "vec_minus (frame_p (m_target_frame s)) (frame_p (m_current_frame s))"
  let ?d = "Normalize eps ?dp"
  let ?r = "GetRotAngle (rot_mul (frame_M (m_target_frame s)) (Inverse (frame_M (m_current_frame s))))"
  let ?e = "computeMotionError GetRotAngle eps s"
  have d0: "0 \<le> fst ?d" by (rule Normalize_norm)
  have du: "Norm (snd ?d) = 1" using assms(1) by (rule Normalize_unit)
  have h: "head3 ?e = vec_times (snd ?d) (min (fst ?d) 1)"
    using d0 by (simp add: head3_computeMotionError clamp_nonneg)
  have hn: "Norm (head3 ?e) = min (fst ?d) 1"
    using d0 du by (simp add: h Norm_vec_times)
  have t: "tail3 ?e = vec_times (snd ?r) (clamp (fst ?r) (- 1) 1)"
    by (rule tail3_computeMotionError)
  have tn: "Norm (tail3 ?e) = min \<bar>fst ?r\<bar> 1"
    using assms(2) by (simp add: t Norm_vec_times clamp_abs)
  have c: "0 \<le> fst ?r \<longrightarrow> clamp (fst ?r) (- 1) 1 = min (fst ?r) 1"
    by (simp add: clamp_nonneg)
  have b1: "Norm (head3 ?e) \<le> 1" using hn by simp
  have b2: "Norm (tail3 ?e) \<le> 1" using tn by simp
  have long: "eps \<le> Norm ?dp \<longrightarrow>
                 head3 ?e = vec_times ?dp (min (Norm ?dp) 1 / Norm ?dp)
               \<and> 0 < min (Norm ?dp) 1 / Norm ?dp
               \<and> Norm (head3 ?e) = min (Norm ?dp) 1"
  proof
    assume l: "eps \<le> Norm ?dp"
    then have n: "0 < Norm ?dp" using assms(1) by simp
    have "head3 ?e = vec_times ?dp (min (Norm ?dp) 1 / Norm ?dp)"
      using h by (simp add: Normalize_long [OF l] vec_div_times_scale)
    moreover have "0 < min (Norm ?dp) 1 / Norm ?dp" using n by (simp add: min_def)
    moreover have "Norm (head3 ?e) = min (Norm ?dp) 1"
      using hn by (simp add: Normalize_long [OF l])
    ultimately show "head3 ?e = vec_times ?dp (min (Norm ?dp) 1 / Norm ?dp)
               \<and> 0 < min (Norm ?dp) 1 / Norm ?dp
               \<and> Norm (head3 ?e) = min (Norm ?dp) 1"
      by blast
  qed
  have near: "eps \<le> Norm ?dp \<and> Norm ?dp \<le> 1 \<longrightarrow> head3 ?e = ?dp"
  proof
    assume l: "eps \<le> Norm ?dp \<and> Norm ?dp \<le> 1"
    then have n: "Norm ?dp \<noteq> 0" using assms(1) by simp
    from l have "min (Norm ?dp) 1 = Norm ?dp" by simp
    then show "head3 ?e = ?dp"
      using h l n by (simp add: Normalize_long vec_div_times)
  qed
  have far: "eps \<le> Norm ?dp \<and> 1 < Norm ?dp \<longrightarrow> head3 ?e = vec_div ?dp (Norm ?dp)"
  proof
    assume l: "eps \<le> Norm ?dp \<and> 1 < Norm ?dp"
    then have "min (Norm ?dp) 1 = 1" by simp
    then show "head3 ?e = vec_div ?dp (Norm ?dp)"
      using h l by (simp add: Normalize_long vec_times_one)
  qed
  have short: "Norm ?dp < eps \<longrightarrow> head3 ?e = Vector 0 0 0"
    using h by (simp add: Normalize_short)
  have r1: "\<bar>fst ?r\<bar> \<le> 1 \<longrightarrow> tail3 ?e = vec_times (snd ?r) (fst ?r)"
    by (simp add: t clamp_def)
  have r2: "1 < fst ?r \<longrightarrow> tail3 ?e = snd ?r"
    by (simp add: t clamp_def vec_times_one)
  have r3: "fst ?r < - 1 \<longrightarrow> tail3 ?e = vec_times (snd ?r) (- 1)"
    by (simp add: t clamp_def)
  show ?thesis
    unfolding Let_def
    using b1 b2 long near far short t tn r1 r2 r3 h du hn c by blast
qed

text \<open>
  Witness for C2: a target 3 length units away along x and a rotation error of 2 rad give
  the error \<open>(1, 0, 0, 0, 0, 1)\<close>; a target half a length unit away along y gives the
  translation block \<open>(0, 1/2, 0)\<close>.
\<close>

theorem motion_error_clamped_witness:
  "computeMotionError (about_z 2) (1 / 1000000) (ctrl_at 3) = [1, 0, 0, 0, 0, 1]
   \<and> Norm (head3 (computeMotionError (about_z 2) (1 / 1000000) (ctrl_at 3))) \<le> 1
   \<and> Norm (tail3 (computeMotionError (about_z 2) (1 / 1000000) (ctrl_at 3))) \<le> 1
   \<and> head3 (computeMotionError (about_z 2) (1 / 1000000)
              ((ctrl_at 0)\<lparr>m_target_frame := Frame Identity (Vector 0 (1 / 2) 0)\<rparr>))
        = Vector 0 (1 / 2) 0"
proof -
  let ?s = "(ctrl_at 0)\<lparr>m_target_frame := Frame Identity (Vector 0 (1 / 2) 0)\<rparr>"
  let ?dp = "vec_minus (frame_p (m_target_frame ?s)) (frame_p (m_current_frame ?s))"
  have e: "(0::real) < 1 / 1000000" by simp
  have a: "Norm (snd (about_z 2 (rot_mul (frame_M (m_target_frame (ctrl_at 3)))
                                       (Inverse (frame_M (m_current_frame (ctrl_at 3))))))) = 1"
    by (simp add: about_z_def)
  have a': "Norm (snd (about_z 2 (rot_mul (frame_M (m_target_frame ?s))
                                        (Inverse (frame_M (m_current_frame ?s)))))) = 1"
    by (simp add: about_z_def)
  have v: "computeMotionError (about_z 2) (1 / 1000000) (ctrl_at 3) = [1, 0, 0, 0, 0, 1]"
    by (simp add: computeMotionError_def ctrl_at_def about_z_def Normalize_def clamp_def Identity_def)
  note m = motion_error_clamped [where eps = "1 / 1000000" and GetRotAngle = "about_z 2"
                                   and s = "ctrl_at 3", OF e a, unfolded Let_def]
  note m' = motion_error_clamped [where eps = "1 / 1000000" and GetRotAngle = "about_z 2"
                                   and s = ?s, OF e a', unfolded Let_def]
  have h: "Norm (head3 (computeMotionError (about_z 2) (1 / 1000000) (ctrl_at 3))) \<le> 1"
    using m by blast
  have t: "Norm (tail3 (computeMotionError (about_z 2) (1 / 1000000) (ctrl_at 3))) \<le> 1"
    using m by blast
  have dp: "?dp = Vector 0 (1 / 2) 0" by (simp add: ctrl_at_def)
  have "Norm (Vector 0 (1 / 2) 0) = \<bar>1 / 2\<bar>"
    using real_sqrt_abs2 [of "1 / 2"] by simp
  then have n: "1 / 1000000 \<le> Norm ?dp \<and> Norm ?dp \<le> 1" by (simp only: dp) simp
  from m' have "1 / 1000000 \<le> Norm ?dp \<and> Norm ?dp \<le> 1 \<longrightarrow>
      head3 (computeMotionError (about_z 2) (1 / 1000000) ?s) = ?dp"
    by blast
  with n have "head3 (computeMotionError (about_z 2) (1 / 1000000) ?s) = ?dp" by blast
  then have y: "head3 (computeMotionError (about_z 2) (1 / 1000000) ?s) = Vector 0 (1 / 2) 0"
    by (simp only: dp)
  show ?thesis using v h t y by blast
qed

lemma Normalize_times:
  assumes "0 < eps" "eps \<le> Norm v"
  shows "vec_times (snd (Normalize eps v)) (fst (Normalize eps v)) = v"
  using assms by (simp add: Normalize_def vec_div_times)

text \<open>
  Claim C5 says that every variant of the error computation returns target position minus
  current position as translation error.  Counterexample: with the target one length unit
  along x from the current position, the variant of the controller with the postural task
  returns \<open>(-1, 0, 0)\<close>, which is current minus target; with the target two length units
  away, the clamped variant returns \<open>(1, 0, 0)\<close>, not \<open>(2, 0, 0)\<close>.
\<close>

theorem motion_error_variants_counterexample:
  "head3 (computeMotionError_cic (ctrl_at 1))
     \<noteq> vec_minus (frame_p (m_target_frame (ctrl_at 1))) (frame_p (m_current_frame (ctrl_at 1)))
   \<and> head3 (computeMotionError_cic (ctrl_at 1)) = Vector (- 1) 0 0
   \<and> head3 (computeMotionError (about_z 0) (1 / 1000000) (ctrl_at 2))
     \<noteq> vec_minus (frame_p (m_target_frame (ctrl_at 2))) (frame_p (m_current_frame (ctrl_at 2)))
   \<and> head3 (computeMotionError (about_z 0) (1 / 1000000) (ctrl_at 2)) = Vector 1 0 0"
  by (simp add: computeMotionError_cic_def computeMotionError_def head3_def ctrl_at_def
        Normalize_def clamp_def about_z_def Identity_def)

text \<open>
  Claim C5, amended.  The variant that computes the current frame on the spot returns the
  rotation axis of target orientation composed with the inverse of current orientation,
  scaled by its angle, and target position minus current position.  The variant of the
  safety-filtered controller returns the same axis scaled by the angle clamped to
  \<open>[-1, 1]\<close>, and target minus current position when the distance is at most 1 (and at
  least the tolerance of \<open>Normalize\<close>); beyond distance 1 it returns the unit direction.
  The variant of the controller with the postural task returns current position minus
  target position, and half the sum of the cross products of the target frame's axes with
  the current frame's axes.
\<close>

theorem motion_error_variants:
  assumes "0 < eps"
  shows "(let target = m_target_frame s; current = m_current_frame s;
              r = GetRotAngle (rot_mul (frame_M target) (Inverse (frame_M current)));
              rk = GetRotAngle (rot_mul (frame_M target) (Inverse (frame_M JntToCart)));
              d = vec_minus (frame_p target) (frame_p current)
          in head3 (computeMotionError_fk GetRotAngle JntToCart s) = vec_minus (frame_p target) (frame_p JntToCart)
           \<and> tail3 (computeMotionError_fk GetRotAngle JntToCart s) = vec_times (snd rk) (fst rk)
           \<and> tail3 (computeMotionError GetRotAngle eps s) = vec_times (snd r) (clamp (fst r) (- 1) 1)
           \<and> (- 1 \<le> fst r \<and> fst r \<le> 1 \<longrightarrow>
                 tail3 (computeMotionError GetRotAngle eps s) = vec_times (snd r) (fst r))
           \<and> (eps \<le> Norm d \<and> Norm d \<le> 1 \<longrightarrow> head3 (computeMotionError GetRotAngle eps s) = d)
           \<and> (eps \<le> Norm d \<and> 1 < Norm d \<longrightarrow>
                 head3 (computeMotionError GetRotAngle eps s) = vec_div d (Norm d))
           \<and> head3 (computeMotionError_cic s) = vec_minus (frame_p current) (frame_p target)
           \<and> tail3 (computeMotionError_cic s) =
               vec_times
                 (vec_plus
                    (vec_plus (cross (UnitX (frame_M target)) (UnitX (frame_M current)))
                              (cross (UnitY (frame_M target)) (UnitY (frame_M current))))
                    (cross (UnitZ (frame_M target)) (UnitZ (frame_M current))))
                 (1 / 2))"
proof -
  let ?target = "m_target_frame s"
  let ?current = "m_current_frame s"
  let ?r = "GetRotAngle (rot_mul (frame_M ?target) (Inverse (frame_M ?current)))"
  let ?d = "vec_minus (frame_p ?target) (frame_p ?current)"
  have a: "head3 (computeMotionError_fk GetRotAngle JntToCart s) = vec_minus (frame_p ?target) (frame_p JntToCart)"
    by (cases "vec_minus (frame_p ?target) (frame_p JntToCart)")
       (simp add: computeMotionError_fk_def head3_def Let_def)
  have b: "tail3 (computeMotionError_fk GetRotAngle JntToCart s) =
        vec_times (snd (GetRotAngle (rot_mul (frame_M ?target) (Inverse (frame_M JntToCart)))))
                  (fst (GetRotAngle (rot_mul (frame_M ?target) (Inverse (frame_M JntToCart)))))"
    by (simp add: computeMotionError_fk_def tail3_def Let_def)
  have c: "tail3 (computeMotionError GetRotAngle eps s) = vec_times (snd ?r) (clamp (fst ?r) (- 1) 1)"
    by (rule tail3_computeMotionError)
  have c': "- 1 \<le> fst ?r \<and> fst ?r \<le> 1 \<longrightarrow>
        tail3 (computeMotionError GetRotAngle eps s) = vec_times (snd ?r) (fst ?r)"
    by (simp add: c clamp_def)
  have d: "eps \<le> Norm ?d \<and> Norm ?d \<le> 1 \<longrightarrow> head3 (computeMotionError GetRotAngle eps s) = ?d"
  proof
    assume h: "eps \<le> Norm ?d \<and> Norm ?d \<le> 1"
    then have "fst (Normalize eps ?d) = Norm ?d" by (simp add: Normalize_def)
    then have "clamp (fst (Normalize eps ?d)) (- 1) 1 = fst (Normalize eps ?d)"
      using h Norm_nonneg [of ?d] by (simp add: clamp_def)
    then show "head3 (computeMotionError GetRotAngle eps s) = ?d"
      using Normalize_times [OF assms, of ?d] h by (simp add: head3_computeMotionError)
  qed
  have d': "eps \<le> Norm ?d \<and> 1 < Norm ?d \<longrightarrow>
        head3 (computeMotionError GetRotAngle eps s) = vec_div ?d (Norm ?d)"
  proof
    assume h: "eps \<le> Norm ?d \<and> 1 < Norm ?d"
    then show "head3 (computeMotionError GetRotAngle eps s) = vec_div ?d (Norm ?d)"
      by (cases "vec_div ?d (Norm ?d)") (simp add: head3_computeMotionError Normalize_def clamp_def)
  qed
  have e: "head3 (computeMotionError_cic s) = vec_minus (frame_p ?current) (frame_p ?target)"
    by (cases "vec_minus (frame_p ?current) (frame_p ?target)")
       (simp add: computeMotionError_cic_def head3_def Let_def)
  have f: "tail3 (computeMotionError_cic s) =
               vec_times
                 (vec_plus
                    (vec_plus (cross (UnitX (frame_M ?target)) (UnitX (frame_M ?current)))
                              (cross (UnitY (frame_M ?target)) (UnitY (frame_M ?current))))
                    (cross (UnitZ (frame_M ?target)) (UnitZ (frame_M ?current))))
                 (1 / 2)"
    by (simp add: computeMotionError_cic_def tail3_def Let_def)
  show ?thesis using a b c c' d d' e f by (simp add: Let_def)
qed

text \<open>
  Witness for the amended C5: target one length unit along x, rotation error of half a
  radian about z.
\<close>

theorem motion_error_variants_witness:
  "head3 (computeMotionError (about_z (1 / 2)) (1 / 1000000) (ctrl_at 1)) = Vector 1 0 0
   \<and> tail3 (computeMotionError (about_z (1 / 2)) (1 / 1000000) (ctrl_at 1)) = Vector 0 0 (1 / 2)
   \<and> head3 (computeMotionError_cic (ctrl_at 1)) = Vector (- 1) 0 0"
proof -
  let ?d = "vec_minus (frame_p (m_target_frame (ctrl_at 1))) (frame_p (m_current_frame (ctrl_at 1)))"
  let ?r = "about_z (1 / 2) (rot_mul (frame_M (m_target_frame (ctrl_at 1)))
                                     (Inverse (frame_M (m_current_frame (ctrl_at 1)))))"
  have e: "(0::real) < 1 / 1000000" by simp
  note m = motion_error_variants [where eps = "1 / 1000000" and GetRotAngle = "about_z (1 / 2)"
             and s = "ctrl_at 1" and JntToCart = "Frame Identity (Vector 0 0 0)", OF e, unfolded Let_def]
  have d: "?d = Vector 1 0 0"
    by (simp add: ctrl_at_def)
  have n: "1 / 1000000 \<le> Norm ?d \<and> Norm ?d \<le> 1" by (simp add: d)
  have r: "?r = (1 / 2, Vector 0 0 1)"
    by (simp add: about_z_def)
  from m have "1 / 1000000 \<le> Norm ?d \<and> Norm ?d \<le> 1 \<longrightarrow>
      head3 (computeMotionError (about_z (1 / 2)) (1 / 1000000) (ctrl_at 1)) = ?d"
    by blast
  with n have "head3 (computeMotionError (about_z (1 / 2)) (1 / 1000000) (ctrl_at 1)) = ?d"
    by blast
  then have h: "head3 (computeMotionError (about_z (1 / 2)) (1 / 1000000) (ctrl_at 1)) = Vector 1 0 0"
    by (simp only: d)
  from m have "- 1 \<le> fst ?r \<and> fst ?r \<le> 1 \<longrightarrow>
      tail3 (computeMotionError (about_z (1 / 2)) (1 / 1000000) (ctrl_at 1)) = vec_times (snd ?r) (fst ?r)"
    by blast
  then have t: "tail3 (computeMotionError (about_z (1 / 2)) (1 / 1000000) (ctrl_at 1)) = Vector 0 0 (1 / 2)"
    by (simp add: r)
  from m have "head3 (computeMotionError_cic (ctrl_at 1)) =
      vec_minus (frame_p (m_current_frame (ctrl_at 1))) (frame_p (m_target_frame (ctrl_at 1)))"
    by blast
  then have c: "head3 (computeMotionError_cic (ctrl_at 1)) = Vector (- 1) 0 0"
    by (simp add: ctrl_at_def)
  show ?thesis using h t c by blast
qed

section \<open>Properties of the target callbacks\<close>

lemma WARN_THROTTLE_fields:
  "m_target_frame (WARN_THROTTLE d now msg s) = m_target_frame s"
  "m_initial_frame (WARN_THROTTLE d now msg s) = m_initial_frame s"
  "m_received_initial_frame (WARN_THROTTLE d now msg s) = m_received_initial_frame s"
  "m_target_wrench (WARN_THROTTLE d now msg s) = m_target_wrench s"
  "warnings (WARN_THROTTLE d now msg s) =
     warnings s @ (if throttle_open d now s then [(now, msg)] else [])"
  by (simp_all add: WARN_THROTTLE_def)

lemma WARN_THROTTLE_closes:
  assumes "throttle_open d now s" "now' < now + d"
  shows "\<not> throttle_open d now' (WARN_THROTTLE d now msg s)"
  using assms by (simp add: WARN_THROTTLE_def throttle_open_def)

lemma WARN_THROTTLE_dropped:
  assumes "\<not> throttle_open d now s"
  shows "WARN_THROTTLE d now msg s = s"
  using assms by (simp add: WARN_THROTTLE_def)

text \<open>
  Claim C7.  A target pose message whose frame identifier differs from the robot base
  link leaves the stored target frame (and the initial frame) unchanged, and its warning
  is subject to rate limiting: it is issued when the limiter lets it through, after which
  no further warning passes within the window of 3000 ms; when the limiter drops it, the
  controller state is unchanged.  A message whose frame identifier matches replaces the
  stored target frame by the pose of the message and issues no warning.  This holds for
  the target-pose callback of every controller.
\<close>

theorem target_frame_callback:
  "(pose_frame_id target \<noteq> m_robot_base_link s \<longrightarrow>
      m_target_frame (targetFrameCallback Quaternion now target s) = m_target_frame s
    \<and> m_initial_frame (targetFrameCallback Quaternion now target s) = m_initial_frame s
    \<and> m_received_initial_frame (targetFrameCallback Quaternion now target s) = m_received_initial_frame s
    \<and> m_target_frame (targetFrameCallback_cic Quaternion now target s) = m_target_frame s
    \<and> warnings (targetFrameCallback Quaternion now target s) =
        warnings s @ (if throttle_open 3000 now s then [(now, pose_warning target s)] else [])
    \<and> warnings (targetFrameCallback_cic Quaternion now target s) =
        warnings s @ (if throttle_open 3000 now s then [(now, pose_warning target s)] else [])
    \<and> (throttle_open 3000 now s \<longrightarrow>
         (\<forall>now' < now + 3000.
            \<not> throttle_open 3000 now' (targetFrameCallback Quaternion now target s)
          \<and> \<not> throttle_open 3000 now' (targetFrameCallback_cic Quaternion now target s)))
    \<and> (\<not> throttle_open 3000 now s \<longrightarrow>
         targetFrameCallback Quaternion now target s = s
       \<and> targetFrameCallback_cic Quaternion now target s = s))
   \<and> (pose_frame_id target = m_robot_base_link s \<longrightarrow>
      m_target_frame (targetFrameCallback Quaternion now target s) =
        Frame (Quaternion (orientation_x target) (orientation_y target)
                          (orientation_z target) (orientation_w target))
              (Vector (position_x target) (position_y target) (position_z target))
    \<and> m_target_frame (targetFrameCallback_cic Quaternion now target s) =
        Frame (Quaternion (orientation_x target) (orientation_y target)
                          (orientation_z target) (orientation_w target))
              (Vector (position_x target) (position_y target) (position_z target))
    \<and> warnings (targetFrameCallback Quaternion now target s) = warnings s
    \<and> warnings (targetFrameCallback_cic Quaternion now target s) = warnings s)"
proof (intro conjI impI)
  assume "pose_frame_id target \<noteq> m_robot_base_link s" "throttle_open 3000 now s"
  then show "\<forall>now' < now + 3000.
            \<not> throttle_open 3000 now' (targetFrameCallback Quaternion now target s)
          \<and> \<not> throttle_open 3000 now' (targetFrameCallback_cic Quaternion now target s)"
    by (simp add: targetFrameCallback_def targetFrameCallback_cic_def WARN_THROTTLE_closes)
qed (simp_all add: targetFrameCallback_def targetFrameCallback_cic_def WARN_THROTTLE_fields
       WARN_THROTTLE_dropped pose_warning_def Let_def)

text \<open>
  Witness for C7: a pose in frame \<open>world\<close> is dropped with a warning, a pose in frame
  \<open>base_link\<close> becomes the target.
\<close>

theorem target_frame_callback_witness:
  "m_target_frame (targetFrameCallback to_identity 5000 wrong_frame_pose (ctrl_at 0))
     = m_target_frame (ctrl_at 0)
   \<and> warnings (targetFrameCallback to_identity 5000 wrong_frame_pose (ctrl_at 0))
     = [(5000, ''Got target pose in wrong reference frame. Expected: base_link but got world'')]
   \<and> m_target_frame (targetFrameCallback to_identity 5000 base_frame_pose (ctrl_at 0))
     = Frame Identity (Vector 1 2 3)"
proof -
  have w: "pose_frame_id wrong_frame_pose \<noteq> m_robot_base_link (ctrl_at 0)"
    by (simp add: wrong_frame_pose_def ctrl_at_def)
  have b: "pose_frame_id base_frame_pose = m_robot_base_link (ctrl_at 0)"
    by (simp add: base_frame_pose_def ctrl_at_def)
  have o: "throttle_open 3000 5000 (ctrl_at 0)"
    by (simp add: throttle_open_def ctrl_at_def)
  note m1 = target_frame_callback [where target = wrong_frame_pose and s = "ctrl_at 0"
              and now = 5000 and Quaternion = to_identity]
  note m2 = target_frame_callback [where target = base_frame_pose and s = "ctrl_at 0"
              and now = 5000 and Quaternion = to_identity]
  from m1 w have k:
    "m_target_frame (targetFrameCallback to_identity 5000 wrong_frame_pose (ctrl_at 0))
       = m_target_frame (ctrl_at 0)"
    "warnings (targetFrameCallback to_identity 5000 wrong_frame_pose (ctrl_at 0)) =
        warnings (ctrl_at 0) @ (if throttle_open 3000 5000 (ctrl_at 0)
                               then [(5000, pose_warning wrong_frame_pose (ctrl_at 0))] else [])"
    by blast+
  from k(2) o have k2:
    "warnings (targetFrameCallback to_identity 5000 wrong_frame_pose (ctrl_at 0))
     = [(5000, ''Got target pose in wrong reference frame. Expected: base_link but got world'')]"
    by (simp add: pose_warning_def ctrl_at_def wrong_frame_pose_def)
  from m2 b have
    "m_target_frame (targetFrameCallback to_identity 5000 base_frame_pose (ctrl_at 0)) =
        Frame (to_identity (orientation_x base_frame_pose) (orientation_y base_frame_pose)
                          (orientation_z base_frame_pose) (orientation_w base_frame_pose))
              (Vector (position_x base_frame_pose) (position_y base_frame_pose) (position_z base_frame_pose))"
    by blast
  then have k3: "m_target_frame (targetFrameCallback to_identity 5000 base_frame_pose (ctrl_at 0))
     = Frame Identity (Vector 1 2 3)"
    by (simp add: to_identity_def base_frame_pose_def)
  show ?thesis using k(1) k2 k3 by blast
qed

text \<open>
  Claim C8 says that a target wrench message in a foreign frame is ignored and a warning
  is issued.  Counterexample: the wrench \<open>(1, 0, 0, 0, 0, 0)\<close> in frame \<open>tool0\<close>, with the
  tool rotated a quarter turn about z, replaces the stored zero wrench by
  \<open>(0, 1, 0, 0, 0, 0)\<close> in the safety-filtered controller and by the message's own values
  in the plain controllers; no warning is issued.
\<close>

theorem target_wrench_counterexample:
  "wrench_frame_id tool_wrench \<noteq> m_robot_base_link (ctrl_at 0)
   \<and> m_target_wrench (ctrl_at 0) = [0, 0, 0, 0, 0, 0]
   \<and> m_target_wrench (targetWrenchCallback quarter_turn tool_wrench (ctrl_at 0)) = [0, 1, 0, 0, 0, 0]
   \<and> m_target_wrench (targetWrenchCallback_cic tool_wrench (ctrl_at 0)) = [1, 0, 0, 0, 0, 0]
   \<and> warnings (targetWrenchCallback quarter_turn tool_wrench (ctrl_at 0)) = []
   \<and> warnings (targetWrenchCallback_cic tool_wrench (ctrl_at 0)) = []"
  by (simp add: targetWrenchCallback_def targetWrenchCallback_cic_def displayInBaseLink_def
        tool_wrench_def ctrl_at_def quarter_turn_def Let_def)

text \<open>
  Claim C8, amended.  A target wrench message is never ignored and never warned about.
  The safety-filtered controller stores the six values of the message as they are when
  the frame identifier is the robot base link, and otherwise stores them rotated into the
  base link by the orientation of the named frame, force and torque separately.  The
  plain controllers store the six values as they are, whatever the frame identifier.
\<close>

theorem target_wrench_callback:
  "m_target_wrench (targetWrenchCallback JntToCart wrench s) =
     (if wrench_frame_id wrench = m_robot_base_link s
      then [force_x wrench, force_y wrench, force_z wrench,
            torque_x wrench, torque_y wrench, torque_z wrench]
      else (let force = rot_apply (frame_M (JntToCart (wrench_frame_id wrench)))
                          (Vector (force_x wrench) (force_y wrench) (force_z wrench));
                torque = rot_apply (frame_M (JntToCart (wrench_frame_id wrench)))
                          (Vector (torque_x wrench) (torque_y wrench) (torque_z wrench))
            in [vx force, vy force, vz force, vx torque, vy torque, vz torque]))
   \<and> m_target_wrench (targetWrenchCallback_cic wrench s) =
       [force_x wrench, force_y wrench, force_z wrench,
        torque_x wrench, torque_y wrench, torque_z wrench]
   \<and> warnings (targetWrenchCallback JntToCart wrench s) = warnings s
   \<and> warn_last_logged (targetWrenchCallback JntToCart wrench s) = warn_last_logged s
   \<and> warnings (targetWrenchCallback_cic wrench s) = warnings s
   \<and> warn_last_logged (targetWrenchCallback_cic wrench s) = warn_last_logged s"
  by (simp add: targetWrenchCallback_def targetWrenchCallback_cic_def displayInBaseLink_def Let_def)

text \<open>Witness for the amended C8: the quarter turn maps the force along x to a force along y.\<close>

theorem target_wrench_callback_witness:
  "m_target_wrench (targetWrenchCallback quarter_turn tool_wrench (ctrl_at 0)) = [0, 1, 0, 0, 0, 0]
   \<and> warnings (targetWrenchCallback quarter_turn tool_wrench (ctrl_at 0)) = warnings (ctrl_at 0)"
  using target_wrench_callback [where JntToCart = quarter_turn and wrench = tool_wrench
          and s = "ctrl_at 0"]
  by (simp add: tool_wrench_def ctrl_at_def quarter_turn_def)


section \<open>Properties of the torque computation\<close>

lemma computeTorque_Lambda:
  "arg_Lambda (filter_args (computeTorque F G eps env s)) =
     mat_inverse (mat_mul (mat_mul (jac_JntToJac env) (dyn_JntToMass env)) (transpose (jac_JntToJac env)))"
  by (simp add: computeTorque_def Let_def)

lemma identity_6:
  "identity 6 = [[1,0,0,0,0,0],[0,1,0,0,0,0],[0,0,1,0,0,0],[0,0,0,1,0,0],[0,0,0,0,1,0],[0,0,0,0,0,1]]"
  by (simp add: identity_def upt_rec)

lemma scaled_identity_6:
  "scaled_identity k 6 = [[k,0,0,0,0,0],[0,k,0,0,0,0],[0,0,k,0,0,0],[0,0,0,k,0,0],[0,0,0,0,k,0],[0,0,0,0,0,k]]"
  by (simp add: scaled_identity_def identity_6)

lemma transpose_identity_6: "transpose (identity 6) = identity 6"
  by (simp add: identity_6)

lemma mat_inverse_scaled_identity_6:
  assumes "k \<noteq> 0"
  shows "mat_inverse (scaled_identity k 6) = Some (scaled_identity (1 / k) 6)"
  using assms
  by (simp only: scaled_identity_6)
     (simp add: mat_inverse_def identity_def upt_rec eliminate_def numeral_eq_Suc)

lemma sandwich_scaled_identity_6:
  "mat_mul (mat_mul (identity 6) (scaled_identity k 6)) (transpose (identity 6)) = scaled_identity k 6"
  by (simp add: transpose_identity_6) (simp add: scaled_identity_6 identity_6 mat_mul_def dot_def)

lemma mat_mul_scaled_identity_6:
  "mat_mul (scaled_identity k 6) (scaled_identity l 6) = scaled_identity (k * l) 6"
  by (simp add: scaled_identity_6 mat_mul_def dot_def)

text \<open>
  Claim C1 has the filter receive the inverse of \<open>J M\<^sup>-\<^sup>1 J\<^sup>T\<close>.  The code inverts
  \<open>J M J\<^sup>T\<close> (lemma \<open>computeTorque_Lambda\<close>): the mass matrix enters without being
  inverted.  At a tick with identity Jacobian and mass matrix twice the identity, the
  filter receives half the identity, while the operational-space inertia of the claim is
  twice the identity.
\<close>

theorem Lambda_failing_input:
  "arg_Lambda (filter_args (computeTorque pass_through (about_z 0) (1 / 1000000) gantry_tick (ctrl_at 1)))
     = Some (scaled_identity (1 / 2) 6)
   \<and> Lambda_spec (jac_JntToJac gantry_tick) (dyn_JntToMass gantry_tick) = Some (scaled_identity 2 6)
   \<and> scaled_identity (1 / 2) 6 \<noteq> scaled_identity 2 6
   \<and> mat_mul (dyn_JntToMass gantry_tick) (scaled_identity (1 / 2) 6) = identity 6"
proof -
  have j: "jac_JntToJac gantry_tick = identity 6" "dyn_JntToMass gantry_tick = scaled_identity 2 6"
    by (simp_all add: gantry_tick_def)
  have a: "arg_Lambda (filter_args (computeTorque pass_through (about_z 0) (1 / 1000000) gantry_tick (ctrl_at 1)))
     = Some (scaled_identity (1 / 2) 6)"
    by (simp only: computeTorque_Lambda j sandwich_scaled_identity_6)
       (simp add: mat_inverse_scaled_identity_6)
  have b: "Lambda_spec (jac_JntToJac gantry_tick) (dyn_JntToMass gantry_tick) = Some (scaled_identity 2 6)"
    by (simp add: Lambda_spec_def j mat_inverse_scaled_identity_6 sandwich_scaled_identity_6)
  have c: "scaled_identity (1 / 2) 6 \<noteq> scaled_identity 2 (6::nat)"
    by (simp add: scaled_identity_6)
  have d: "mat_mul (dyn_JntToMass gantry_tick) (scaled_identity (1 / 2) 6) = identity 6"
    by (simp add: j mat_mul_scaled_identity_6) (simp add: scaled_identity_6 identity_6)
  show ?thesis using a b c d by blast
qed

text \<open>
  Claim C10.  In every tick of the safety-filtered controller the Coriolis argument of the
  filter call is the zero vector over the joints: the arguments of the call depend
  neither on the Coriolis torque of the dynamics solver nor on the enable flag, which are
  only consulted after the call.
\<close>

theorem filter_receives_zero_coriolis:
  "arg_tau_coriolis (filter_args (computeTorque F G eps env s)) = replicate (m_joint_number s) 0
   \<and> filter_args (computeTorque F G eps (env\<lparr>dyn_JntToCoriolis := c\<rparr>) (s\<lparr>m_compensate_coriolis := b\<rparr>))
       = filter_args (computeTorque F G eps env s)"
  by (simp add: computeTorque_def Let_def computeMotionError_def)

text \<open>
  Claim C6.  The safety filter is invoked on the nominal task torque
  \<open>J\<^sup>T (K e - D (J q'))\<close>.  The returned torque is the torque the filter delivers, plus the
  gravity torque when gravity compensation is enabled, plus the Coriolis torque when
  Coriolis compensation is enabled, each under its own flag.  The arguments of the filter
  call depend on neither flag and on neither compensation torque.
\<close>

theorem compensation_after_filter:
  "(let out = computeTorque F G eps env s;
        filtered = fst (F (filter_args out));
        e = computeMotionError G eps (s\<lparr>m_current_frame := fk_JntToCart env\<rparr>);
        K = displayInBaseLink_tensor (fk_link env) (m_cartesian_stiffness s) (m_end_effector_link s);
        D = displayInBaseLink_tensor (fk_link env) (m_cartesian_damping s) (m_end_effector_link s);
        J = jac_JntToJac env
    in arg_tau_nominal (filter_args out) =
         mat_vec (transpose J) (vec_sub (mat_vec K e) (mat_vec D (mat_vec J (joint_velocities env))))
     \<and> tau out =
         (if m_compensate_gravity s \<and> m_compensate_coriolis s
          then vec_add (vec_add filtered (dyn_JntToGravity env)) (dyn_JntToCoriolis env)
          else if m_compensate_gravity s then vec_add filtered (dyn_JntToGravity env)
          else if m_compensate_coriolis s then vec_add filtered (dyn_JntToCoriolis env)
          else filtered)
     \<and> filter_args (computeTorque F G eps (env\<lparr>dyn_JntToGravity := g, dyn_JntToCoriolis := c\<rparr>)
                      (s\<lparr>m_compensate_gravity := a, m_compensate_coriolis := b\<rparr>))
         = filter_args out)"
  by (simp add: computeTorque_def Let_def computeMotionError_def)

lemma tensor_scaled_identity:
  "displayInBaseLink_tensor (\<lambda>link. Frame Identity v) (scaled_identity k 6) link = scaled_identity k 6"
  by (simp add: displayInBaseLink_tensor_def Identity_def scaled_identity_6 topLeftCorner_def
        bottomRightCorner_def mat_mul_def dot_def Let_def)

text \<open>
  Witness for C6: stiffness 500, target one length unit along x, no joint motion, both
  compensations enabled.
\<close>

theorem compensation_after_filter_witness:
  "tau (computeTorque pass_through (about_z 0) (1 / 1000000) gantry_tick (ctrl_at 1))
     = [501, 0, 10, 0, 0, 0]
   \<and> arg_tau_nominal (filter_args (computeTorque pass_through (about_z 0) (1 / 1000000) gantry_tick (ctrl_at 1)))
     = [500, 0, 0, 0, 0, 0]"
proof -
  note m = compensation_after_filter [where F = pass_through and G = "about_z 0"
             and eps = "1 / 1000000" and env = gantry_tick and s = "ctrl_at 1", unfolded Let_def]
  have e: "computeMotionError (about_z 0) (1 / 1000000)
             ((ctrl_at 1)\<lparr>m_current_frame := fk_JntToCart gantry_tick\<rparr>) = [1, 0, 0, 0, 0, 0]"
    by (simp add: computeMotionError_def ctrl_at_def gantry_tick_def about_z_def Normalize_def
          clamp_def Identity_def)
  have K: "displayInBaseLink_tensor (fk_link gantry_tick) (m_cartesian_stiffness (ctrl_at 1))
             (m_end_effector_link (ctrl_at 1)) = scaled_identity 500 6"
    using tensor_scaled_identity [of "Vector 0 0 0" 500 "''tool0''"]
    by (simp add: gantry_tick_def ctrl_at_def)
  have D: "displayInBaseLink_tensor (fk_link gantry_tick) (m_cartesian_damping (ctrl_at 1))
             (m_end_effector_link (ctrl_at 1)) = scaled_identity (2 * sqrt 500) 6"
    using tensor_scaled_identity [of "Vector 0 0 0" "2 * sqrt 500" "''tool0''"]
    by (simp add: gantry_tick_def ctrl_at_def)
  from m have "arg_tau_nominal (filter_args (computeTorque pass_through (about_z 0) (1 / 1000000) gantry_tick (ctrl_at 1))) =
         mat_vec (transpose (jac_JntToJac gantry_tick))
           (vec_sub (mat_vec (displayInBaseLink_tensor (fk_link gantry_tick) (m_cartesian_stiffness (ctrl_at 1)) (m_end_effector_link (ctrl_at 1)))
                       (computeMotionError (about_z 0) (1 / 1000000) ((ctrl_at 1)\<lparr>m_current_frame := fk_JntToCart gantry_tick\<rparr>)))
                    (mat_vec (displayInBaseLink_tensor (fk_link gantry_tick) (m_cartesian_damping (ctrl_at 1)) (m_end_effector_link (ctrl_at 1)))
                       (mat_vec (jac_JntToJac gantry_tick) (joint_velocities gantry_tick))))"
    by blast
  then have n: "arg_tau_nominal (filter_args (computeTorque pass_through (about_z 0) (1 / 1000000) gantry_tick (ctrl_at 1)))
     = [500, 0, 0, 0, 0, 0]"
    by (simp only: e K D)
       (simp add: gantry_tick_def transpose_identity_6, simp add: identity_6 scaled_identity_6 mat_vec_def dot_def vec_sub_def)
  from m have "tau (computeTorque pass_through (about_z 0) (1 / 1000000) gantry_tick (ctrl_at 1)) =
         (if m_compensate_gravity (ctrl_at 1) \<and> m_compensate_coriolis (ctrl_at 1)
          then vec_add (vec_add (fst (pass_through (filter_args (computeTorque pass_through (about_z 0) (1 / 1000000) gantry_tick (ctrl_at 1))))) (dyn_JntToGravity gantry_tick)) (dyn_JntToCoriolis gantry_tick)
          else if m_compensate_gravity (ctrl_at 1) then vec_add (fst (pass_through (filter_args (computeTorque pass_through (about_z 0) (1 / 1000000) gantry_tick (ctrl_at 1))))) (dyn_JntToGravity gantry_tick)
          else if m_compensate_coriolis (ctrl_at 1) then vec_add (fst (pass_through (filter_args (computeTorque pass_through (about_z 0) (1 / 1000000) gantry_tick (ctrl_at 1))))) (dyn_JntToCoriolis gantry_tick)
          else fst (pass_through (filter_args (computeTorque pass_through (about_z 0) (1 / 1000000) gantry_tick (ctrl_at 1)))))"
    by blast
  then have t: "tau (computeTorque pass_through (about_z 0) (1 / 1000000) gantry_tick (ctrl_at 1))
     = [501, 0, 10, 0, 0, 0]"
    by (simp add: pass_through_def n) (simp add: ctrl_at_def gantry_tick_def vec_add_def)
  show ?thesis using t n by blast
qed

end
